theory Spec2Isabelle
  imports Main
begin

section \<open>The retry wrapper of the crawler (crawl.ts, fetchWithRetry)\<close>

text \<open>
  The network is the environment of \<open>fetchWithRetry\<close>: the outcome of the k-th call of
  \<open>fetch\<close> (counted from 0) is either a response with an HTTP status, or a rejection
  (network error, timeout) with its message. Every attempt of the loop calls \<open>fetch\<close>
  once, so the k-th call is the one of attempt k. What the function does besides
  returning is recorded as a trace of events: the fetch of an attempt, a warning printed
  with \<open>console.warn\<close> (carrying the retry number shown), and a backoff wait of so many
  milliseconds.
\<close>

datatype fetch_outcome = Resolved nat | Rejected string

datatype event = Fetch nat | Warn nat | Sleep nat

datatype error = HttpError nat | FetchFailed string | Unreachable

definition MAX_RETRIES :: nat where
  "MAX_RETRIES = 4"

text \<open>\<open>resp.ok\<close>: the status is in the range 200 to 299.\<close>

definition ok :: "nat \<Rightarrow> bool" where
  "ok st \<longleftrightarrow> 200 \<le> st \<and> st \<le> 299"

text \<open>
  The \<open>for\<close> loop over \<open>attempt\<close>. The \<open>throw\<close> of a non-retryable status stands inside
  the \<open>try\<close> block, so it is handled by the \<open>catch\<close> clause of the same attempt, like a
  rejection of \<open>fetch\<close>: \<open>catch\<close> below is that clause. A run of the loop to its end
  reaches the final \<open>throw new Error("unreachable")\<close>.
\<close>

function fetchLoop ::
  "(nat \<Rightarrow> fetch_outcome) \<Rightarrow> nat \<Rightarrow> event list \<Rightarrow> event list \<times> (error + nat)" where
  "fetchLoop net attempt tr =
     (if attempt < MAX_RETRIES then
        (let tr1 = tr @ [Fetch attempt];
             catch = (\<lambda>err.
               if attempt = MAX_RETRIES - 1 then (tr1, Inl err)
               else fetchLoop net (attempt + 1)
                      (tr1 @ [Warn (attempt + 1), Sleep (200 * 2 ^ attempt)]))
         in case net attempt of
              Resolved st \<Rightarrow>
                if ok st then (tr1, Inr st)
                else if st = 429 \<or> st \<ge> 500 then
                  fetchLoop net (attempt + 1)
                    (tr1 @ [Warn (attempt + 1), Sleep (200 * 2 ^ attempt)])
                else catch (HttpError st)
            | Rejected msg \<Rightarrow> catch (FetchFailed msg))
      else (tr, Inl Unreachable))"
  by pat_completeness auto
termination
  by (relation "measure (\<lambda>(net, attempt, tr). MAX_RETRIES - attempt)") auto

declare fetchLoop.simps [simp del]

definition fetchWithRetry :: "(nat \<Rightarrow> fetch_outcome) \<Rightarrow> event list \<times> (error + nat)" where
  "fetchWithRetry net = fetchLoop net 0 []"

section \<open>JavaScript containers used by the crawler\<close>

text \<open>
  A JavaScript \<open>Map\<close> keeps its entries in insertion order, and \<open>set\<close> on a key that is
  present replaces the value in place. It is modelled as an association list with that
  \<open>set\<close>; the loops below only ever build maps with \<open>map_set\<close>, so keys stay distinct.
\<close>

type_synonym ('k, 'v) js_map = "('k \<times> 'v) list"

definition map_get :: "('k, 'v) js_map \<Rightarrow> 'k \<Rightarrow> 'v option" where
  "map_get m k = map_of m k"

definition map_has :: "('k, 'v) js_map \<Rightarrow> 'k \<Rightarrow> bool" where
  "map_has m k \<longleftrightarrow> map_get m k \<noteq> None"

fun map_set :: "('k, 'v) js_map \<Rightarrow> 'k \<Rightarrow> 'v \<Rightarrow> ('k, 'v) js_map" where
  "map_set [] k v = [(k, v)]"
| "map_set ((k', v') # m) k v = (if k' = k then (k, v) # m else (k', v') # map_set m k v)"

definition map_keys :: "('k, 'v) js_map \<Rightarrow> 'k list" where
  "map_keys m = map fst m"

text \<open>
  \<open>new Map(entries)\<close> and \<open>Object.fromEntries(entries)\<close> add the entries one by one, a later
  entry replacing an earlier one with the same key. (An object lists integer-like keys
  first; the order of the keys of an object plays no role below.)
\<close>

fun new_Map :: "('k, 'v) js_map \<Rightarrow> ('k \<times> 'v) list \<Rightarrow> ('k, 'v) js_map" where
  "new_Map m [] = m"
| "new_Map m ((k, v) # entries) = new_Map (map_set m k v) entries"

text \<open>
  \<open>Array.prototype.sort\<close> with a comparator is stable: it is modelled as the stable
  insertion sort, where an element goes before the first element it does not compare
  greater than. For a consistent comparator every stable sort gives this result.
\<close>

fun insert_sorted :: "('a \<Rightarrow> 'a \<Rightarrow> int) \<Rightarrow> 'a \<Rightarrow> 'a list \<Rightarrow> 'a list" where
  "insert_sorted cmp x [] = [x]"
| "insert_sorted cmp x (y # ys) =
     (if cmp x y \<le> 0 then x # y # ys else y # insert_sorted cmp x ys)"

definition array_sort :: "('a \<Rightarrow> 'a \<Rightarrow> int) \<Rightarrow> 'a list \<Rightarrow> 'a list" where
  "array_sort cmp xs = foldr (insert_sorted cmp) xs []"

section \<open>The crawler (crawl.ts, main)\<close>

text \<open>
  A row of the API. \<open>installs\<close> is a JavaScript number that the crawler reads from the
  response without validating it; it is modelled as an integer, which may be negative.
  Strings are lists of code units in the range 0 to 255.
\<close>

record ApiSkill =
  source :: string
  skillId :: string
  name :: string
  installs :: int

text \<open>The field \<open>id\<close> of an index item is called \<open>item_id\<close> here.\<close>

record SkillIndexItem =
  item_id :: string
  providerId :: string
  source :: string
  skillId :: string
  title :: string
  link :: string
  installsAllTime :: int
  installsTrending :: int
  installsHot :: int
  firstSeenAt :: "string option"
  description :: "string option"
  skillMdPath :: "string option"

record SkillsIndex =
  updatedAt :: string
  sourceUpdatedAt :: string
  providerId :: string
  count :: nat
  items :: "SkillIndexItem list"

datatype Board = AllTime | Trending | Hot

definition BOARDS :: "Board list" where
  "BOARDS = [AllTime, Trending, Hot]"

text \<open>The id of a row: \<open>`${s.source}/${s.skillId}`\<close>.\<close>

definition skill_id :: "ApiSkill \<Rightarrow> string" where
  "skill_id s = ApiSkill.source s @ ''/'' @ ApiSkill.skillId s"

text \<open>
  \<open>encodeURIComponent\<close> on code units up to 255: letters, digits and the marks
  \<open>- _ . ! ~ * ' ( )\<close> stay, every other code unit is written as the percent-escaped
  bytes of its UTF-8 encoding (one byte below 128, two from 128 on).
\<close>

definition hex_digit :: "nat \<Rightarrow> char" where
  "hex_digit n = ''0123456789ABCDEF'' ! n"

definition percent :: "nat \<Rightarrow> string" where
  "percent n = [CHR ''%'', hex_digit (n div 16), hex_digit (n mod 16)]"

definition uri_unreserved :: "char \<Rightarrow> bool" where
  "uri_unreserved c \<longleftrightarrow>
     (let n = (of_char c :: nat) in
        (65 \<le> n \<and> n \<le> 90) \<or> (97 \<le> n \<and> n \<le> 122) \<or> (48 \<le> n \<and> n \<le> 57) \<or>
        c \<in> set ''-_.!~*()'' \<or> c = CHR 0x27)"

definition encode_unit :: "char \<Rightarrow> string" where
  "encode_unit c =
     (let n = (of_char c :: nat) in
        if uri_unreserved c then [c]
        else if n < 128 then percent n
        else percent (192 + n div 64) @ percent (128 + n mod 64))"

definition encodeURIComponent :: "string \<Rightarrow> string" where
  "encodeURIComponent s = concat (map encode_unit s)"

text \<open>
  The loop that fills the installs map of one board (the three loops of \<open>main\<close> are the
  same loop, over the rows of all-time, trending and hot):
  \<open>map.set(id, Math.max(map.get(id) ?? 0, s.installs))\<close>.
\<close>

fun installsLoop :: "(string, int) js_map \<Rightarrow> ApiSkill list \<Rightarrow> (string, int) js_map" where
  "installsLoop m [] = m"
| "installsLoop m (s # rest) =
     (let i = skill_id s
      in installsLoop
           (map_set m i (max (case map_get m i of None \<Rightarrow> 0 | Some v \<Rightarrow> v) (installs s)))
           rest)"

text \<open>The loops that collect the unique skills: a row is stored unless its id is present.\<close>

fun collectBoard ::
  "(string, ApiSkill) js_map \<Rightarrow> ApiSkill list \<Rightarrow> (string, ApiSkill) js_map" where
  "collectBoard m [] = m"
| "collectBoard m (s # rest) =
     (let i = skill_id s
      in collectBoard (if \<not> map_has m i then map_set m i s else m) rest)"

fun collectBoards ::
  "(string, ApiSkill) js_map \<Rightarrow> (Board \<Rightarrow> ApiSkill list) \<Rightarrow> Board list \<Rightarrow>
     (string, ApiSkill) js_map" where
  "collectBoards m boardData [] = m"
| "collectBoards m boardData (board # boards) =
     collectBoards (collectBoard m (boardData board)) boardData boards"

text \<open>
  The file of first-seen timestamps as \<open>loadFirstSeen\<close> finds it: missing, not parseable
  (any exception gives the empty map), or a JSON object with its entries.
\<close>

datatype first_seen_file = Missing | Unparseable | Parsed "(string \<times> string) list"

definition loadFirstSeen :: "first_seen_file \<Rightarrow> (string, string) js_map" where
  "loadFirstSeen stored =
     (case stored of
        Missing \<Rightarrow> []
      | Unparseable \<Rightarrow> []
      | Parsed entries \<Rightarrow> new_Map [] entries)"

fun firstSeenLoop ::
  "(string, string) js_map \<Rightarrow> string \<Rightarrow> string list \<Rightarrow> (string, string) js_map" where
  "firstSeenLoop firstSeen now [] = firstSeen"
| "firstSeenLoop firstSeen now (i # ids) =
     firstSeenLoop (if \<not> map_has firstSeen i then map_set firstSeen i now else firstSeen)
       now ids"

text \<open>
  \<open>saveFirstSeen\<close> writes the object made of the entries sorted by key. The collation of
  \<open>localeCompare\<close> depends on the locale of the run and is a parameter.
\<close>

definition saveFirstSeen ::
  "(string \<Rightarrow> string \<Rightarrow> int) \<Rightarrow> (string, string) js_map \<Rightarrow> (string \<times> string) list" where
  "saveFirstSeen localeCompare m =
     new_Map [] (array_sort (\<lambda>(a, _) (b, _). localeCompare a b) m)"

definition buildItem ::
  "(string, int) js_map \<Rightarrow> (string, int) js_map \<Rightarrow> (string, int) js_map \<Rightarrow>
     (string, string) js_map \<Rightarrow> string \<times> ApiSkill \<Rightarrow> SkillIndexItem" where
  "buildItem allTime trending hot firstSeen entry =
     (case entry of (i, skill) \<Rightarrow>
        \<lparr> item_id = i,
          providerId = ''skills.sh'',
          source = ApiSkill.source skill,
          skillId = ApiSkill.skillId skill,
          title = name skill,
          link = ''https://skills.sh/skills/'' @ encodeURIComponent (ApiSkill.source skill)
                   @ ''/'' @ encodeURIComponent (ApiSkill.skillId skill),
          installsAllTime = (case map_get allTime i of None \<Rightarrow> 0 | Some v \<Rightarrow> v),
          installsTrending = (case map_get trending i of None \<Rightarrow> 0 | Some v \<Rightarrow> v),
          installsHot = (case map_get hot i of None \<Rightarrow> 0 | Some v \<Rightarrow> v),
          firstSeenAt = map_get firstSeen i,
          description = None,
          skillMdPath = None \<rparr>)"

text \<open>The comparator of the final sort: \<open>(a, b) => b.installsAllTime - a.installsAllTime\<close>.\<close>

definition byInstallsAllTime :: "SkillIndexItem \<Rightarrow> SkillIndexItem \<Rightarrow> int" where
  "byInstallsAllTime a b = installsAllTime b - installsAllTime a"

text \<open>
  A run of \<open>main\<close> after the three boards have been fetched: \<open>boardData\<close> holds the rows
  of each board in the order fetched, \<open>stored\<close> is the first-seen file found, \<open>now\<close> the
  timestamp of the run. The run writes the first-seen file and the index.
\<close>

record crawl_output =
  firstSeenFile :: "(string \<times> string) list"
  indexFile :: SkillsIndex

definition crawl_main ::
  "(string \<Rightarrow> string \<Rightarrow> int) \<Rightarrow> (Board \<Rightarrow> ApiSkill list) \<Rightarrow> first_seen_file \<Rightarrow> string \<Rightarrow>
     crawl_output" where
  "crawl_main localeCompare boardData stored now =
     (let allTime = installsLoop [] (boardData AllTime);
          trending = installsLoop [] (boardData Trending);
          hot = installsLoop [] (boardData Hot);
          skillMap = collectBoards [] boardData BOARDS;
          firstSeen = firstSeenLoop (loadFirstSeen stored) now (map_keys skillMap);
          items0 = map (buildItem allTime trending hot firstSeen) skillMap;
          sorted_items = array_sort byInstallsAllTime items0
      in \<lparr> firstSeenFile = saveFirstSeen localeCompare firstSeen,
           indexFile = \<lparr> updatedAt = now, sourceUpdatedAt = now, providerId = ''skills.sh'',
                         count = length sorted_items, items = sorted_items \<rparr> \<rparr>)"

subsection \<open>Notions used to state the properties of a crawl\<close>

text \<open>
  All rows of a run in the order the boards are enumerated, and the order in which the
  elements of a list are first met.
\<close>

definition allRows :: "(Board \<Rightarrow> ApiSkill list) \<Rightarrow> ApiSkill list" where
  "allRows boardData = boardData AllTime @ boardData Trending @ boardData Hot"

primrec firstEncountered :: "'a list \<Rightarrow> 'a list" where
  "firstEncountered [] = []"
| "firstEncountered (x # xs) = x # filter (\<lambda>y. y \<noteq> x) (firstEncountered xs)"

subsection \<open>A sample run\<close>

text \<open>A comparison of strings by code units, as a sample collation.\<close>

fun compareCodeUnits :: "string \<Rightarrow> string \<Rightarrow> int" where
  "compareCodeUnits [] [] = 0"
| "compareCodeUnits [] (y # ys) = - 1"
| "compareCodeUnits (x # xs) [] = 1"
| "compareCodeUnits (x # xs) (y # ys) =
     (if (of_char x :: nat) < of_char y then - 1
      else if (of_char y :: nat) < of_char x then 1
      else compareCodeUnits xs ys)"

definition sampleBoards :: "Board \<Rightarrow> ApiSkill list" where
  "sampleBoards board =
     (case board of
        AllTime \<Rightarrow>
          [\<lparr> ApiSkill.source = ''a'', skillId = ''b'', name = ''First'', installs = 3 \<rparr>,
           \<lparr> ApiSkill.source = ''x'', skillId = ''y'', name = ''Other'', installs = 9 \<rparr>,
           \<lparr> ApiSkill.source = ''a'', skillId = ''b'', name = ''Second'', installs = 7 \<rparr>]
      | Trending \<Rightarrow>
          [\<lparr> ApiSkill.source = ''c'', skillId = ''d'', name = ''Third'', installs = 5 \<rparr>,
           \<lparr> ApiSkill.source = ''a'', skillId = ''b'', name = ''Fourth'', installs = 1 \<rparr>]
      | Hot \<Rightarrow> [])"

definition negativeRows :: "ApiSkill list" where
  "negativeRows =
     [\<lparr> ApiSkill.source = ''a'', skillId = ''b'', name = ''Negative'', installs = - 5 \<rparr>]"

definition sampleStored :: first_seen_file where
  "sampleStored = Parsed [(''a/b'', ''2024-01-01T00:00:00Z'')]"

definition sampleNow :: string where
  "sampleNow = ''2025-06-01T12:00:00.000Z''"


definition sampleIndex :: "SkillIndexItem list" where
  "sampleIndex =
     items (indexFile (crawl_main compareCodeUnits sampleBoards sampleStored sampleNow))"

section \<open>The description extractor (extractDescription)\<close>

text \<open>
  JavaScript strings are sequences of code units; they are modelled as lists of
  characters, a character being a code unit in the range 0 to 255. The string methods
  used by \<open>extractDescription\<close> follow.
\<close>

definition newline :: char where
  "newline = CHR 0x0A"

text \<open>
  \<open>trim\<close> removes white space and line terminators at both ends; among the code units up
  to 255 these are tab, line feed, vertical tab, form feed, carriage return, space and
  the no-break space.
\<close>

definition is_space :: "char \<Rightarrow> bool" where
  "is_space c \<longleftrightarrow> (of_char c :: nat) \<in> {9, 10, 11, 12, 13, 32, 160}"

definition trim :: "string \<Rightarrow> string" where
  "trim s = rev (dropWhile is_space (rev (dropWhile is_space s)))"

text \<open>\<open>s.startsWith(p)\<close>, and \<open>s.indexOf(p, pos)\<close> with \<open>None\<close> for the result -1.\<close>

definition startsWith :: "string \<Rightarrow> string \<Rightarrow> bool" where
  "startsWith s p \<longleftrightarrow> take (length p) s = p"

fun search_from :: "string \<Rightarrow> string \<Rightarrow> nat option" where
  "search_from p [] = (if p = [] then Some 0 else None)"
| "search_from p (c # cs) =
     (if startsWith (c # cs) p then Some 0 else map_option Suc (search_from p cs))"

definition indexOf :: "string \<Rightarrow> string \<Rightarrow> nat \<Rightarrow> nat option" where
  "indexOf s p pos = map_option (\<lambda>k. k + min pos (length s)) (search_from p (drop pos s))"

text \<open>\<open>s.split(sep)\<close> for a separator of one code unit, and \<open>lines.join(sep)\<close>.\<close>

fun split :: "string \<Rightarrow> char \<Rightarrow> string list" where
  "split [] sep = [] # []"
| "split (c # cs) sep =
     (if c = sep then [] # split cs sep
      else (case split cs sep of [] \<Rightarrow> [c] # [] | l # ls \<Rightarrow> (c # l) # ls))"

fun join :: "string list \<Rightarrow> string \<Rightarrow> string" where
  "join [] sep = []"
| "join [l] sep = l"
| "join (l # ls) sep = l @ sep @ join ls sep"

text \<open>
  The first step of \<open>extractDescription\<close>: a body that starts with \<open>---\<close> loses everything up
  to the next \<open>---\<close> (searched from index 3), and is trimmed; without a second \<open>---\<close> the
  body stays as it is.
\<close>

definition stripFrontmatter :: "string \<Rightarrow> string" where
  "stripFrontmatter md =
     (if startsWith md ''---'' then
        (case indexOf md ''---'' 3 of
           Some endIdx \<Rightarrow> trim (drop (endIdx + 3) md)
         | None \<Rightarrow> md)
      else md)"

text \<open>
  The first loop: \<open>startIdx\<close> is the index after the first heading when the first
  non-blank line is a heading, the index of the first non-blank line otherwise, and 0
  when the loop ends without \<open>break\<close>. The argument \<open>i\<close> is the index of the line at the head.
\<close>

fun findStart :: "string list \<Rightarrow> nat \<Rightarrow> nat" where
  "findStart [] i = 0"
| "findStart (l # ls) i =
     (if startsWith (trim l) ''#'' then i + 1
      else if length (trim l) > 0 \<and> \<not> startsWith (trim l) ''#'' then i
      else findStart ls (i + 1))"

text \<open>The second loop, over the lines from \<open>startIdx\<close> on, with \<open>paragraphLines\<close>.\<close>

fun collectParagraph :: "string list \<Rightarrow> string list \<Rightarrow> string list" where
  "collectParagraph [] paragraphLines = paragraphLines"
| "collectParagraph (l # ls) paragraphLines =
     (let line = trim l in
        if length line = 0 then
          (if length paragraphLines > 0 then paragraphLines
           else collectParagraph ls paragraphLines)
        else if startsWith line ''#'' \<or> startsWith line ''```'' \<or> startsWith line ''- [''
          then collectParagraph ls paragraphLines
        else collectParagraph ls (paragraphLines @ [line]))"

text \<open>
  The replacement of links, \<open>replace\<close> with the global pattern for \<open>[label](url)\<close> and the
  replacement \<open>$1\<close>. A match at the head of \<open>s\<close> is an opening square bracket, a longest
  run of one or more code units other than the closing square bracket, the closing square
  bracket, an opening parenthesis, a longest run of one or more code units other than the
  closing parenthesis, and the closing parenthesis; both character classes exclude the
  delimiter that follows them, so backtracking into a shorter run never helps.
  \<open>match_link\<close> returns the label and the rest after the match. \<open>replaceLinks\<close> scans from
  the left: a match is replaced by its label and the scan goes on after it, otherwise
  the code unit is kept.
\<close>

definition match_link :: "string \<Rightarrow> (string \<times> string) option" where
  "match_link s =
     (case s of
        [] \<Rightarrow> None
      | c # r \<Rightarrow>
          if c \<noteq> CHR ''['' then None
          else
            (let label = takeWhile (\<lambda>x. x \<noteq> CHR '']'') r;
                 r1 = dropWhile (\<lambda>x. x \<noteq> CHR '']'') r
             in if label = [] then None
                else
                  (case r1 of
                     a # b # r2 \<Rightarrow>
                       if a \<noteq> CHR '']'' \<or> b \<noteq> CHR ''('' then None
                       else
                         (let url = takeWhile (\<lambda>x. x \<noteq> CHR '')'') r2;
                              r3 = dropWhile (\<lambda>x. x \<noteq> CHR '')'') r2
                          in if url = [] then None
                             else (case r3 of
                                     [] \<Rightarrow> None
                                   | d # r4 \<Rightarrow> if d \<noteq> CHR '')'' then None else Some (label, r4)))
                   | _ \<Rightarrow> None)))"

text \<open>The rest after a match is shorter than the string, so the scan terminates.\<close>

lemma dropWhile_eq_length: "dropWhile P xs = ys \<Longrightarrow> length ys \<le> length xs"
  using length_dropWhile_le[of P xs] by simp

lemma match_link_shorter: "match_link s = Some (label, rest) \<Longrightarrow> length rest < length s"
  by (auto simp: match_link_def Let_def split: list.splits if_splits dest!: dropWhile_eq_length)

function replaceLinks :: "string \<Rightarrow> string" where
  "replaceLinks s =
     (case match_link s of
        Some (label, rest) \<Rightarrow> label @ replaceLinks rest
      | None \<Rightarrow> (case s of [] \<Rightarrow> [] | c # cs \<Rightarrow> c # replaceLinks cs))"
  by pat_completeness auto
termination
  by (relation "measure length") (auto dest: match_link_shorter)

declare replaceLinks.simps [simp del]

text \<open>The removal of emphasis and code markers: \<open>replace(/[*_`]/g, "")\<close>.\<close>

definition stripMarkers :: "string \<Rightarrow> string" where
  "stripMarkers s = filter (\<lambda>c. c \<notin> set ''*_`'') s"

text \<open>
  \<open>extractDescription\<close> up to the last \<open>trim\<close>: the cleaned first paragraph, or \<open>None\<close> where
  the function returns null because no paragraph line was collected.
\<close>

definition extractedText :: "string \<Rightarrow> string option" where
  "extractedText md =
     (let body = stripFrontmatter md;
          lines = split body newline;
          startIdx = findStart lines 0;
          paragraphLines = collectParagraph (drop startIdx lines) []
      in if length paragraphLines = 0 then None
         else Some (trim (stripMarkers (replaceLinks (join paragraphLines '' '')))))"

text \<open>The end of \<open>extractDescription\<close>: truncation, and the test \<open>desc.length > 10\<close>.\<close>

definition truncateDescription :: "string \<Rightarrow> string option" where
  "truncateDescription desc0 =
     (let desc = (if length desc0 > 200 then take 197 desc0 @ ''...'' else desc0)
      in if length desc > 10 then Some desc else None)"

definition extractDescription :: "string \<Rightarrow> string option" where
  "extractDescription md =
     (case extractedText md of
        None \<Rightarrow> None
      | Some desc \<Rightarrow> truncateDescription desc)"

section \<open>The enrichment pass (main of the description fetcher)\<close>

text \<open>
  What \<open>fetchSkillDescription\<close> returns for an item. The call reads and writes the local
  cache and asks the network; its result is taken as given, a function of the item
  \<open>fetchSkillDescription\<close> is called on.
\<close>

record FetchResult =
  description :: "string option"
  mdPath :: "string option"

text \<open>A string or null as a condition: null and the empty string are falsy.\<close>

definition truthy :: "string option \<Rightarrow> bool" where
  "truthy s \<longleftrightarrow> (case s of None \<Rightarrow> False | Some str \<Rightarrow> str \<noteq> [])"

text \<open>
  \<open>xs.slice(0, end)\<close>: a negative end counts from the end of the array. \<open>TOP_N\<close> comes from
  the environment; it is the integer that \<open>slice\<close> makes of it.
\<close>

definition slice0 :: "'a list \<Rightarrow> int \<Rightarrow> 'a list" where
  "slice0 xs end_idx =
     (if end_idx < 0 then take (length xs - nat (- end_idx)) xs else take (nat end_idx) xs)"

definition needsFetch :: "int \<Rightarrow> SkillsIndex \<Rightarrow> SkillIndexItem list" where
  "needsFetch TOP_N index =
     filter (\<lambda>item. \<not> truthy (SkillIndexItem.description item)) (slice0 (items index) TOP_N)"

text \<open>
  \<open>processPool\<close> with at least one worker: every index of \<open>items\<close> is taken by one worker,
  which stores the result of \<open>fn\<close> at that index of \<open>results\<close>.
\<close>

definition processPool :: "('a \<Rightarrow> 'b) \<Rightarrow> 'a list \<Rightarrow> 'b list" where
  "processPool fn xs = map fn xs"

text \<open>The body of the loop that updates the index with the descriptions.\<close>

definition patchItem :: "(string, FetchResult) js_map \<Rightarrow> SkillIndexItem \<Rightarrow> SkillIndexItem" where
  "patchItem descMap item =
     (case map_get descMap (item_id item) of
        None \<Rightarrow> item
      | Some result \<Rightarrow>
          if truthy (FetchResult.description result)
          then item\<lparr> SkillIndexItem.description := FetchResult.description result,
                     skillMdPath := mdPath result \<rparr>
          else item)"

definition enrich_main ::
  "int \<Rightarrow> (SkillIndexItem \<Rightarrow> FetchResult) \<Rightarrow> SkillsIndex \<Rightarrow> SkillsIndex" where
  "enrich_main TOP_N fetchSkillDescription index =
     (let results = processPool (\<lambda>item. (item_id item, fetchSkillDescription item))
                      (needsFetch TOP_N index);
          descMap = new_Map [] results
      in index\<lparr> items := map (patchItem descMap) (items index) \<rparr>)"

section \<open>The categorizer (categorize)\<close>

text \<open>
  Every pattern of \<open>CATEGORIES\<close> has the form \<open>/\b(k1|k2|...)\b/i\<close>: a word boundary, an
  alternation of keywords, a word boundary, matched ignoring case. A keyword is a sequence
  of letters and digits, in a few keywords with \<open>.?\<close> (an optional code unit that is not a
  line terminator) inside; a dot occurs nowhere else. A pattern is modelled by the list of
  its keywords as written in the source; \<open>parse_alternative\<close> reads a keyword as a
  sequence of atoms.
\<close>

datatype atom = Lit char | OptAny

fun parse_alternative :: "string \<Rightarrow> atom list" where
  "parse_alternative [] = []"
| "parse_alternative [c] = [Lit c]"
| "parse_alternative (c # d # cs) =
     (if c = CHR ''.'' \<and> d = CHR ''?'' then OptAny # parse_alternative cs
      else Lit c # parse_alternative (d # cs))"

text \<open>
  A word character is a letter, a digit or the underscore. A position is a word boundary
  when exactly one of the code units before and after it is a word character (the ends
  of the text count as no word character).
\<close>

definition is_word_char :: "char \<Rightarrow> bool" where
  "is_word_char c \<longleftrightarrow>
     c \<in> set ''abcdefghijklmnopqrstuvwxyzABCDEFGHIJKLMNOPQRSTUVWXYZ0123456789_''"

definition word_boundary :: "char option \<Rightarrow> char option \<Rightarrow> bool" where
  "word_boundary prev next \<longleftrightarrow>
     (case prev of None \<Rightarrow> False | Some c \<Rightarrow> is_word_char c) \<noteq>
     (case next of None \<Rightarrow> False | Some c \<Rightarrow> is_word_char c)"

text \<open>
  Matching with the flag \<open>i\<close> compares the canonical forms of the two code units, their
  upper-case forms. A code unit of the text is only ever compared with the ASCII
  character of a keyword, and a code unit from 128 on never has an ASCII canonical form:
  so the letters a to z are mapped to A to Z and every other code unit is left as it is.
\<close>

definition canonicalize :: "char \<Rightarrow> char" where
  "canonicalize c =
     (case map_of (zip ''abcdefghijklmnopqrstuvwxyz'' ''ABCDEFGHIJKLMNOPQRSTUVWXYZ'') c of
        Some u \<Rightarrow> u
      | None \<Rightarrow> c)"

definition line_terminator :: "char \<Rightarrow> bool" where
  "line_terminator c \<longleftrightarrow> c = CHR 0x0A \<or> c = CHR 0x0D"

text \<open>
  \<open>match_atoms alt prev rest\<close>: the alternative matches at the head of \<open>rest\<close> (the code unit
  before it being \<open>prev\<close>) and a word boundary follows the match. The optional code unit
  is tried first, then skipped, as a backtracking matcher does.
\<close>

fun match_atoms :: "atom list \<Rightarrow> char option \<Rightarrow> string \<Rightarrow> bool" where
  "match_atoms [] prev rest =
     word_boundary prev (case rest of [] \<Rightarrow> None | c # cs \<Rightarrow> Some c)"
| "match_atoms (Lit p # ps) prev rest =
     (case rest of
        [] \<Rightarrow> False
      | c # cs \<Rightarrow> if canonicalize c = canonicalize p then match_atoms ps (Some c) cs else False)"
| "match_atoms (OptAny # ps) prev rest =
     (if (case rest of
            [] \<Rightarrow> False
          | c # cs \<Rightarrow> if line_terminator c then False else match_atoms ps (Some c) cs)
      then True
      else match_atoms ps prev rest)"

text \<open>The alternation tries its alternatives in order.\<close>

fun match_alternatives :: "atom list list \<Rightarrow> char option \<Rightarrow> string \<Rightarrow> bool" where
  "match_alternatives [] prev rest = False"
| "match_alternatives (alt # alts) prev rest =
     (if match_atoms alt prev rest then True else match_alternatives alts prev rest)"

text \<open>
  \<open>pattern.test(text)\<close>: the pattern has no global flag, so every call searches from the
  start of the text for the first position where the pattern matches.
\<close>

fun search :: "atom list list \<Rightarrow> char option \<Rightarrow> string \<Rightarrow> bool" where
  "search alts prev [] =
     (if word_boundary prev None then match_alternatives alts prev [] else False)"
| "search alts prev (c # cs) =
     (if (if word_boundary prev (Some c) then match_alternatives alts prev (c # cs) else False)
      then True
      else search alts (Some c) cs)"

definition regex_test :: "string list \<Rightarrow> string \<Rightarrow> bool" where
  "regex_test pattern text = search (map parse_alternative pattern) None text"

text \<open>The nine rules, in the order of the source.\<close>

definition developmentToolsPattern :: "string list" where
  "developmentToolsPattern =
     [''code'', ''coding'', ''dev'', ''debug'', ''lint'', ''test'', ''git'', ''ci'',
      ''cd'', ''deploy'', ''docker'', ''k8s'', ''kubernetes'', ''terraform'', ''aws'',
      ''gcp'', ''azure'', ''api'', ''sdk'', ''cli'', ''compiler'', ''build'',
      ''webpack'', ''vite'', ''npm'', ''yarn'', ''rust'', ''python'', ''java'',
      ''typescript'', ''javascript'', ''react'', ''vue'', ''angular'', ''svelte'',
      ''node'', ''deno'', ''bun'', ''go'', ''swift'', ''kotlin'', ''flutter'',
      ''android'', ''ios'', ''mobile'', ''web'', ''frontend'', ''backend'',
      ''fullstack'', ''database'', ''sql'', ''postgres'', ''mongo'', ''redis'',
      ''graphql'', ''rest'', ''grpc'', ''microservice'', ''devops'', ''infra'',
      ''cloud'', ''server'', ''lambda'', ''function'', ''endpoint'', ''route'',
      ''middleware'', ''auth'', ''oauth'', ''jwt'', ''session'', ''cookie'', ''cors'',
      ''csrf'', ''xss'', ''injection'', ''security'', ''vuln'', ''pentest'', ''ctf'',
      ''hack'', ''exploit'', ''patch'', ''hotfix'', ''refactor'', ''migrate'',
      ''upgrade'', ''version'', ''release'', ''changelog'', ''semver'', ''monorepo'',
      ''workspace'']"

definition dataAnalysisPattern :: "string list" where
  "dataAnalysisPattern =
     [''data'', ''analytics'', ''analysis'', ''dashboard'', ''chart'', ''graph'',
      ''viz'', ''visual'', ''report'', ''metric'', ''kpi'', ''bi'', ''etl'',
      ''pipeline'', ''warehouse'', ''lake'', ''spark'', ''hadoop'', ''pandas'',
      ''numpy'', ''scipy'', ''matplotlib'', ''jupyter'', ''notebook'', ''statistics'',
      ''stat'', ''ml'', ''machine.?learning'', ''ai'', ''model'', ''train'', ''predict'',
      ''classify'', ''cluster'', ''neural'', ''deep.?learn'', ''llm'', ''gpt'', ''bert'',
      ''transformer'', ''embed'', ''vector'', ''rag'', ''prompt'', ''fine.?tun'',
      ''dataset'', ''feature'', ''label'', ''annotate'', ''nlp'', ''sentiment'',
      ''token'', ''parse'', ''scrape'', ''crawl'', ''extract'']"

definition documentProcessingPattern :: "string list" where
  "documentProcessingPattern =
     [''document'', ''doc'', ''pdf'', ''word'', ''excel'', ''csv'', ''json'', ''xml'',
      ''yaml'', ''markdown'', ''md'', ''html'', ''latex'', ''template'', ''format'',
      ''convert'', ''transform'', ''parse'', ''extract'', ''ocr'', ''scan'', ''image'',
      ''photo'', ''video'', ''audio'', ''media'', ''file'', ''upload'', ''download'',
      ''compress'', ''archive'', ''zip'', ''encrypt'', ''decrypt'', ''sign'', ''stamp'',
      ''watermark'', ''merge'', ''split'', ''batch'', ''bulk'', ''process'',
      ''workflow'', ''automat'', ''pipe'']"

definition creativeMediaPattern :: "string list" where
  "creativeMediaPattern =
     [''design'', ''figma'', ''sketch'', ''photoshop'', ''illustrator'', ''canva'',
      ''ui'', ''ux'', ''css'', ''style'', ''theme'', ''color'', ''font'', ''typography'',
      ''layout'', ''responsive'', ''animate'', ''motion'', ''3d'', ''render'', ''game'',
      ''unity'', ''unreal'', ''godot'', ''pixel'', ''sprite'', ''asset'', ''texture'',
      ''material'', ''shader'', ''vfx'', ''sfx'', ''music'', ''sound'', ''voice'',
      ''tts'', ''stt'', ''speech'', ''video'', ''stream'', ''record'', ''edit'', ''cut'',
      ''trim'', ''subtitle'', ''caption'', ''transcri'', ''podcast'', ''youtube'',
      ''tiktok'', ''instagram'', ''social'', ''content'', ''blog'', ''post'',
      ''article'', ''story'', ''creative'', ''art'', ''draw'', ''paint'', ''generate'',
      ''diffusion'', ''dall'', ''midjourney'', ''stable'']"

definition communicationWritingPattern :: "string list" where
  "communicationWritingPattern =
     [''write'', ''writing'', ''writer'', ''copywrite'', ''copy'', ''edit'',
      ''proofread'', ''grammar'', ''spell'', ''translate'', ''translat'', ''i18n'',
      ''l10n'', ''locale'', ''language'', ''english'', ''chinese'', ''spanish'',
      ''french'', ''german'', ''japanese'', ''korean'', ''email'', ''mail'', ''letter'',
      ''memo'', ''proposal'', ''pitch'', ''present'', ''slide'', ''deck'', ''speak'',
      ''communicat'', ''chat'', ''message'', ''sms'', ''notify'', ''notification'',
      ''alert'', ''webhook'', ''slack'', ''discord'', ''teams'', ''telegram'', ''bot'',
      ''assist'', ''help'', ''support'', ''faq'', ''knowledge.?base'', ''wiki'',
      ''documentation'', ''readme'', ''changelog'', ''guide'', ''tutorial'', ''howto'',
      ''explain'', ''summariz'', ''tldr'', ''brief'', ''abstract'', ''outline'']"

definition businessMarketingPattern :: "string list" where
  "businessMarketingPattern =
     [''business'', ''market'', ''marketing'', ''seo'', ''sem'', ''ads'', ''advertis'',
      ''campaign'', ''funnel'', ''lead'', ''crm'', ''sales'', ''revenue'', ''price'',
      ''cost'', ''budget'', ''forecast'', ''finance'', ''account'', ''invoice'',
      ''payment'', ''stripe'', ''paypal'', ''billing'', ''subscri'', ''saas'',
      ''startup'', ''founder'', ''ceo'', ''cto'', ''product'', ''roadmap'', ''strategy'',
      ''plan'', ''goal'', ''okr'', ''kpi'', ''growth'', ''retention'', ''churn'',
      ''conversion'', ''ab.?test'', ''experiment'', ''survey'', ''feedback'', ''review'',
      ''rating'', ''nps'', ''customer'', ''client'', ''user'', ''persona'', ''segment'',
      ''cohort'', ''outreach'', ''cold'', ''warm'', ''network'', ''linkedin'', ''twitter'']"

definition productivityPattern :: "string list" where
  "productivityPattern =
     [''productiv'', ''todo'', ''task'', ''project'', ''manage'', ''organize'',
      ''automate'', ''workflow'', ''schedule'', ''calendar'', ''time'', ''track'',
      ''pomodoro'', ''focus'', ''habit'', ''routine'', ''template'', ''snippet'',
      ''shortcut'', ''hotkey'', ''macro'', ''script'', ''shell'', ''bash'', ''zsh'',
      ''terminal'', ''command'', ''alias'', ''dotfile'', ''config'', ''setting'',
      ''prefer'', ''custom'', ''personal'', ''note'', ''notion'', ''obsidian'', ''roam'',
      ''logseq'', ''bookmark'', ''save'', ''archive'', ''backup'', ''sync'', ''cloud'',
      ''storage'', ''drive'', ''dropbox'', ''search'', ''find'', ''filter'', ''sort'',
      ''tag'', ''label'', ''folder'', ''workspace'', ''desktop'', ''window'', ''tab'',
      ''split'', ''arrange'', ''clipboard'', ''paste'', ''history'']"

definition collaborationPattern :: "string list" where
  "collaborationPattern =
     [''collaborat'', ''team'', ''group'', ''share'', ''invite'', ''permission'',
      ''role'', ''access'', ''admin'', ''member'', ''contributor'', ''reviewer'',
      ''approve'', ''merge'', ''pull.?request'', ''pr'', ''issue'', ''ticket'', ''bug'',
      ''feature.?request'', ''board'', ''kanban'', ''agile'', ''scrum'', ''sprint'',
      ''standup'', ''retro'', ''meeting'', ''call'', ''zoom'', ''google.?meet'',
      ''pair'', ''mob'', ''live'', ''real.?time'', ''concurrent'', ''conflict'',
      ''resolve'', ''comment'', ''thread'', ''discuss'', ''vote'', ''poll'', ''decide'',
      ''consensus'']"

definition securityPattern :: "string list" where
  "securityPattern =
     [''security'', ''secure'', ''encrypt'', ''decrypt'', ''hash'', ''salt'',
      ''password'', ''credential'', ''secret'', ''vault'', ''key'', ''cert'', ''ssl'',
      ''tls'', ''https'', ''firewall'', ''vpn'', ''proxy'', ''tor'', ''privacy'',
      ''anonym'', ''gdpr'', ''compliance'', ''audit'', ''log'', ''monitor'', ''alert'',
      ''incident'', ''response'', ''forensic'', ''malware'', ''virus'', ''phish'',
      ''spam'', ''block'', ''allow'', ''deny'', ''rule'', ''policy'', ''rbac'', ''iam'',
      ''sso'', ''mfa'', ''2fa'', ''otp'', ''biometric'', ''zero.?trust'']"

definition CATEGORIES :: "(string \<times> string list) list" where
  "CATEGORIES =
    [(''development-tools'', developmentToolsPattern),
     (''data-analysis'', dataAnalysisPattern),
     (''document-processing'', documentProcessingPattern),
     (''creative-media'', creativeMediaPattern),
     (''communication-writing'', communicationWritingPattern),
     (''business-marketing'', businessMarketingPattern),
     (''productivity'', productivityPattern),
     (''collaboration'', collaborationPattern),
     (''security'', securityPattern)]"

text \<open>The loop of \<open>categorize\<close> over the rules, and the text it searches.\<close>

fun categorizeLoop :: "(string \<times> string list) list \<Rightarrow> string \<Rightarrow> string" where
  "categorizeLoop [] text = ''other''"
| "categorizeLoop ((category, pattern) # rules) text =
     (if regex_test pattern text then category else categorizeLoop rules text)"

definition searchText :: "SkillIndexItem \<Rightarrow> string" where
  "searchText skill = SkillIndexItem.source skill @ '' '' @ SkillIndexItem.skillId skill @ '' '' @ title skill"

definition categorize :: "SkillIndexItem \<Rightarrow> string" where
  "categorize skill = categorizeLoop CATEGORIES (searchText skill)"

subsection \<open>What it means that a pattern matches a text\<close>

text \<open>
  The meaning of the patterns, stated apart from the search above. \<open>last_unit s\<close> and
  \<open>first_unit s\<close> are the last and the first code unit of \<open>s\<close>, if any; \<open>unit_before prev s\<close>
  is the last code unit of \<open>s\<close>, or \<open>prev\<close> for the empty string. \<open>keyword_matches alt w\<close>: the
  string \<open>w\<close> is the keyword read ignoring case, an optional code unit being present (and no
  line terminator) or absent. \<open>pattern_matches pattern text\<close>: the text splits into
  \<open>pre @ w @ post\<close> where \<open>w\<close> is one of the keywords of the pattern and both ends of \<open>w\<close>
  are word boundaries of the text.
\<close>

fun unit_before :: "char option \<Rightarrow> string \<Rightarrow> char option" where
  "unit_before prev [] = prev"
| "unit_before prev (c # cs) = unit_before (Some c) cs"

definition last_unit :: "string \<Rightarrow> char option" where
  "last_unit s = unit_before None s"

definition first_unit :: "string \<Rightarrow> char option" where
  "first_unit s = (case s of [] \<Rightarrow> None | c # cs \<Rightarrow> Some c)"

fun keyword_matches :: "atom list \<Rightarrow> string \<Rightarrow> bool" where
  "keyword_matches [] w \<longleftrightarrow> w = []"
| "keyword_matches (Lit p # ps) w \<longleftrightarrow>
     (case w of [] \<Rightarrow> False | c # cs \<Rightarrow> canonicalize c = canonicalize p \<and> keyword_matches ps cs)"
| "keyword_matches (OptAny # ps) w \<longleftrightarrow>
     keyword_matches ps w \<or>
     (case w of [] \<Rightarrow> False | c # cs \<Rightarrow> \<not> line_terminator c \<and> keyword_matches ps cs)"

definition pattern_matches :: "string list \<Rightarrow> string \<Rightarrow> bool" where
  "pattern_matches pattern text \<longleftrightarrow>
     (\<exists>pre w post.
        text = pre @ w @ post \<and>
        (\<exists>kw\<in>set pattern. keyword_matches (parse_alternative kw) w) \<and>
        word_boundary (last_unit pre) (first_unit (w @ post)) \<and>
        word_boundary (last_unit (pre @ w)) (first_unit post))"

subsection \<open>Sample inputs\<close>

definition sampleMd :: string where
  "sampleMd =
     ''---'' @ [newline] @ ''title: x'' @ [newline] @ ''---'' @ [newline] @
     ''# Heading'' @ [newline] @ [newline] @
     ''This is **the** description.'' @ [newline] @ [newline] @ ''More text.''"

definition longMd :: string where
  "longMd = replicate 250 (CHR ''a'')"

definition sampleItem :: SkillIndexItem where
  "sampleItem =
     \<lparr> item_id = ''acme/misc/thing'', providerId = ''skills.sh'', source = ''acme/misc'',
       skillId = ''thing'', title = ''Thing'', link = ''https://skills.sh/skills/acme%2Fmisc/thing'',
       installsAllTime = 12, installsTrending = 3, installsHot = 0,
       firstSeenAt = Some ''2024-01-01T00:00:00Z'', description = None, skillMdPath = None \<rparr>"

definition dockerItem :: SkillIndexItem where
  "dockerItem = sampleItem \<lparr> title := ''Docker CI pipeline'' \<rparr>"

definition pipelineItem :: SkillIndexItem where
  "pipelineItem = sampleItem \<lparr> title := ''A pipeline'' \<rparr>"

definition unrelatedItem :: SkillIndexItem where
  "unrelatedItem = sampleItem \<lparr> title := ''Random unrelated tool'' \<rparr>"

definition describedItem :: SkillIndexItem where
  "describedItem =
     sampleItem \<lparr> item_id := ''x/y'', source := ''x'', skillId := ''y'',
       SkillIndexItem.description := Some ''Already described here.'',
       skillMdPath := Some ''data/skills-md/x/y/SKILL.md'' \<rparr>"

definition foundItem :: SkillIndexItem where
  "foundItem = sampleItem \<lparr> item_id := ''a/b'', source := ''a'', skillId := ''b'' \<rparr>"

definition missingItem :: SkillIndexItem where
  "missingItem = sampleItem \<lparr> item_id := ''c/d'', source := ''c'', skillId := ''d'' \<rparr>"

definition enrichIndex :: SkillsIndex where
  "enrichIndex =
     \<lparr> updatedAt = sampleNow, sourceUpdatedAt = sampleNow, providerId = ''skills.sh'',
       count = 3, items = [describedItem, foundItem, missingItem] \<rparr>"

definition sampleFetch :: "SkillIndexItem \<Rightarrow> FetchResult" where
  "sampleFetch item =
     (if item_id item = ''a/b''
      then \<lparr> FetchResult.description = Some ''A skill found upstream.'',
             mdPath = Some ''data/skills-md/a/b/SKILL.md'' \<rparr>
      else \<lparr> FetchResult.description = None, mdPath = None \<rparr>)"

definition latestItem :: SkillIndexItem where
  "latestItem = sampleItem \<lparr> title := ''The latest thing'' \<rparr>"

section \<open>Theorems\<close>

subsection \<open>The retry wrapper\<close>

text \<open>
  The wrapper returns the first successful response: a server answering 503 twice and
  then 200 is asked three times, with waits of 200 and 400 milliseconds in between.
\<close>

lemma fetchWithRetry_503_503_200:
  "fetchWithRetry (\<lambda>k. if k < 2 then Resolved 503 else Resolved 200) =
     ([Fetch 0, Warn 1, Sleep 200, Fetch 1, Warn 2, Sleep 400, Fetch 2], Inr 200)"
  by (simp add: fetchWithRetry_def fetchLoop.simps MAX_RETRIES_def ok_def Let_def)

text \<open>
  Every attempt fetches, and a 4xx status other than 429 is retried like a network
  error: after such a first response the wrapper warns, waits 200 milliseconds and
  fetches again, whatever the network answers later.
\<close>

lemma fetchLoop_extends: "\<exists>tr'. fst (fetchLoop net attempt tr) = tr @ tr'"
proof (induction "MAX_RETRIES - attempt" arbitrary: attempt tr)
  case 0
  then show ?case
    by (simp add: fetchLoop.simps[of net attempt tr])
next
  case (Suc n)
  then have step: "\<exists>tr'. fst (fetchLoop net (attempt + 1) tr1) = tr1 @ tr'" for tr1
    by (intro Suc.hyps(1)) simp
  show ?case
  proof (cases "attempt < MAX_RETRIES")
    case False
    then show ?thesis by (simp add: fetchLoop.simps[of net attempt tr])
  next
    case True
    obtain tr' where "fst (fetchLoop net (attempt + 1)
        ((tr @ [Fetch attempt]) @ [Warn (attempt + 1), Sleep (200 * 2 ^ attempt)])) =
        ((tr @ [Fetch attempt]) @ [Warn (attempt + 1), Sleep (200 * 2 ^ attempt)]) @ tr'"
      using step by blast
    then show ?thesis
      using True
      by (simp add: fetchLoop.simps[of net attempt tr] Let_def split: fetch_outcome.splits)
  qed
qed

lemma fetchLoop_fetches:
  assumes "attempt < MAX_RETRIES"
  shows "\<exists>tr'. fst (fetchLoop net attempt tr) = tr @ Fetch attempt # tr'"
proof -
  obtain tr' where "fst (fetchLoop net (attempt + 1)
      ((tr @ [Fetch attempt]) @ [Warn (attempt + 1), Sleep (200 * 2 ^ attempt)])) =
      ((tr @ [Fetch attempt]) @ [Warn (attempt + 1), Sleep (200 * 2 ^ attempt)]) @ tr'"
    using fetchLoop_extends by blast
  then show ?thesis
    using assms
    by (simp add: fetchLoop.simps[of net attempt tr] Let_def split: fetch_outcome.splits)
qed

lemma fetchWithRetry_nonretryable_is_retried:
  assumes "net 0 = Resolved st" and "400 \<le> st" and "st < 500" and "st \<noteq> 429"
  shows "\<exists>tr. fst (fetchWithRetry net) = [Fetch 0, Warn 1, Sleep 200, Fetch 1] @ tr"
proof -
  have "fetchWithRetry net = fetchLoop net (0 + 1) [Fetch 0, Warn 1, Sleep 200]"
    using assms by (simp add: fetchWithRetry_def fetchLoop.simps[of net 0] MAX_RETRIES_def ok_def Let_def)
  moreover have "\<exists>tr'. fst (fetchLoop net (0 + 1) [Fetch 0, Warn 1, Sleep 200]) =
      [Fetch 0, Warn 1, Sleep 200] @ Fetch (0 + 1) # tr'"
    by (rule fetchLoop_fetches) (simp add: MAX_RETRIES_def)
  ultimately show ?thesis
    by simp
qed

text \<open>
  Claim C1 (a 4xx status other than 429 fails at once, with no further fetch and no
  backoff wait) does not hold of the code. Against a server that answers 404 to every
  request, \<open>fetchWithRetry\<close> fetches four times and waits 200, 400 and 800 milliseconds
  before the error of the last attempt reaches the caller: the error thrown for the
  status is caught by the \<open>catch\<close> clause of the loop body, which retries. The branch of
  the source that separates 429 and 5xx from the other statuses shows that an immediate
  failure was meant.
\<close>

theorem fetchWithRetry_404_is_retried:
  "fetchWithRetry (\<lambda>k. Resolved 404) =
     ([Fetch 0, Warn 1, Sleep 200, Fetch 1, Warn 2, Sleep 400,
       Fetch 2, Warn 3, Sleep 800, Fetch 3], Inl (HttpError 404))"
  by (simp add: fetchWithRetry_def fetchLoop.simps MAX_RETRIES_def ok_def Let_def)

subsection \<open>Maps and sorting\<close>

lemma map_get_map_set: "map_get (map_set m k v) k' = (if k' = k then Some v else map_get m k')"
  by (induction m) (auto simp: map_get_def)

lemma map_get_Nil: "map_get [] k = None"
  by (simp add: map_get_def)

lemma map_has_iff: "map_has m k \<longleftrightarrow> k \<in> set (map_keys m)"
  by (simp add: map_has_def map_get_def map_keys_def map_of_eq_None_iff)

lemma map_keys_map_set:
  "map_keys (map_set m k v) = (if k \<in> set (map_keys m) then map_keys m else map_keys m @ [k])"
  by (induction m) (force simp: map_keys_def)+

lemma map_set_fresh: "k \<notin> set (map_keys m) \<Longrightarrow> map_set m k v = m @ [(k, v)]"
  by (induction m) (auto simp: map_keys_def)

lemma distinct_map_set: "distinct (map_keys m) \<Longrightarrow> distinct (map_keys (map_set m k v))"
  by (simp add: map_keys_map_set)

lemma distinct_new_Map: "distinct (map_keys m) \<Longrightarrow> distinct (map_keys (new_Map m entries))"
  by (induction m entries rule: new_Map.induct) (auto simp: distinct_map_set)

lemma map_get_new_Map:
  "map_get (new_Map m entries) k =
     (case map_of (rev entries) k of Some v \<Rightarrow> Some v | None \<Rightarrow> map_get m k)"
  by (induction m entries rule: new_Map.induct)
     (auto simp: map_get_map_set map_of_append map_add_def split: option.splits)

lemma map_get_new_Map_distinct:
  "distinct (map fst entries) \<Longrightarrow> map_get (new_Map [] entries) k = map_of entries k"
proof -
  assume d: "distinct (map fst entries)"
  then have "map_of (rev entries) = map_of entries"
    by (intro map_of_inject_set[THEN iffD2]) (simp_all add: rev_map[symmetric])
  then show ?thesis
    using map_get_new_Map[of "[]" entries k] by (simp add: map_get_Nil split: option.splits)
qed

lemma set_insert_sorted: "set (insert_sorted cmp x ys) = insert x (set ys)"
  by (induction ys) auto

lemma set_array_sort: "set (array_sort cmp xs) = set xs"
  by (induction xs) (auto simp: array_sort_def set_insert_sorted)

lemma distinct_keys_insert_sorted:
  "distinct (map f (insert_sorted cmp x ys)) \<longleftrightarrow> f x \<notin> f ` set ys \<and> distinct (map f ys)"
  by (induction ys) (auto simp: set_insert_sorted)

lemma distinct_keys_array_sort: "distinct (map f (array_sort cmp xs)) \<longleftrightarrow> distinct (map f xs)"
  by (induction xs) (auto simp: array_sort_def distinct_keys_insert_sorted set_array_sort[unfolded array_sort_def])

lemma map_of_array_sort:
  assumes "distinct (map fst m)"
  shows "map_of (array_sort cmp m) = map_of m"
  using assms by (intro map_of_inject_set[THEN iffD2]) (auto simp: distinct_keys_array_sort set_array_sort)

lemma insert_sorted_insort_key:
  "insert_sorted byInstallsAllTime x ys = insort_key (\<lambda>it. - installsAllTime it) x ys"
  by (induction ys) (auto simp: byInstallsAllTime_def)

lemma array_sort_sort_key:
  "array_sort byInstallsAllTime xs = sort_key (\<lambda>it. - installsAllTime it) xs"
  by (induction xs) (auto simp: array_sort_def sort_key_def insert_sorted_insort_key)

subsection \<open>Loops\<close>

lemma map_get_installsLoop_fold:
  "map_get (installsLoop m rows) i =
     (if i \<in> skill_id ` set rows
      then Some (fold max (map installs (filter (\<lambda>s. skill_id s = i) rows))
                   (case map_get m i of None \<Rightarrow> 0 | Some v \<Rightarrow> v))
      else map_get m i)"
proof (induction rows arbitrary: m)
  case Nil
  show ?case by simp
next
  case (Cons s rest)
  show ?case
  proof (cases "skill_id s = i")
    case True
    have none: "filter (\<lambda>s. skill_id s = i) rest = []" if "i \<notin> skill_id ` set rest"
      using that by (auto simp: filter_empty_conv)
    show ?thesis
      using True by (auto simp: Cons.IH Let_def map_get_map_set max.commute none)
  next
    case False
    then show ?thesis
      by (auto simp: Cons.IH Let_def map_get_map_set)
  qed
qed

lemma fold_max_Max: "fold max xs (a::int) = Max (insert a (set xs))"
  using Max.set_eq_fold[of a xs] by simp

lemma map_get_installsLoop_absent:
  "i \<notin> skill_id ` set rows \<Longrightarrow> map_get (installsLoop [] rows) i = None"
  by (simp add: map_get_installsLoop_fold map_get_Nil)

subsection \<open>The set of skills\<close>

lemma collectBoard_append: "collectBoard m (xs @ ys) = collectBoard (collectBoard m xs) ys"
  by (induction xs arbitrary: m) (simp_all add: Let_def)

lemma collectBoards_allRows: "collectBoards [] boardData BOARDS = collectBoard [] (allRows boardData)"
  by (simp add: BOARDS_def allRows_def collectBoard_append)

lemma map_keys_collectBoard:
  "map_keys (collectBoard m rows) =
     map_keys m @ filter (\<lambda>i. i \<notin> set (map_keys m)) (firstEncountered (map skill_id rows))"
proof (induction rows arbitrary: m)
  case Nil
  show ?case by simp
next
  case (Cons s rest)
  show ?case
  proof (cases "skill_id s \<in> set (map_keys m)")
    case True
    then have "filter (\<lambda>i. i \<notin> set (map_keys m)) (filter (\<lambda>y. y \<noteq> skill_id s) xs) =
        filter (\<lambda>i. i \<notin> set (map_keys m)) xs" for xs
      by (induction xs) auto
    with True show ?thesis
      by (simp add: Cons.IH Let_def map_has_iff)
  next
    case False
    have "filter (\<lambda>i. i \<notin> set (map_keys m) \<and> i \<noteq> skill_id s) xs =
        filter (\<lambda>i. i \<notin> set (map_keys m)) (filter (\<lambda>y. y \<noteq> skill_id s) xs)" for xs
      by (induction xs) auto
    with False show ?thesis
      by (simp add: Cons.IH Let_def map_has_iff map_keys_map_set)
  qed
qed

lemma distinct_firstEncountered: "distinct (firstEncountered xs)"
  by (induction xs) auto

lemma set_firstEncountered: "set (firstEncountered xs) = set xs"
  by (induction xs) auto

lemma map_get_collectBoard:
  "map_get (collectBoard m rows) i =
     (case map_get m i of Some s \<Rightarrow> Some s | None \<Rightarrow> find (\<lambda>r. skill_id r = i) rows)"
proof (induction rows arbitrary: m)
  case Nil
  show ?case by (simp split: option.splits)
next
  case (Cons s rest)
  show ?case
    by (auto simp: Cons.IH Let_def map_has_def map_get_map_set split: option.splits)
qed

lemma map_keys_skillMap:
  "map_keys (collectBoards [] boardData BOARDS) = firstEncountered (map skill_id (allRows boardData))"
  by (simp add: collectBoards_allRows map_keys_collectBoard) (simp add: map_keys_def)

lemma map_get_skillMap:
  "map_get (collectBoards [] boardData BOARDS) i = find (\<lambda>r. skill_id r = i) (allRows boardData)"
  by (simp add: collectBoards_allRows map_get_collectBoard) (simp add: map_get_def)

subsection \<open>First-seen timestamps\<close>

lemma map_get_firstSeenLoop:
  "map_get (firstSeenLoop firstSeen now ids) i =
     (case map_get firstSeen i of
        Some v \<Rightarrow> Some v
      | None \<Rightarrow> if i \<in> set ids then Some now else None)"
  by (induction firstSeen now ids rule: firstSeenLoop.induct)
     (auto simp: map_has_def map_get_map_set split: option.splits)

lemma distinct_firstSeenLoop:
  "distinct (map_keys firstSeen) \<Longrightarrow> distinct (map_keys (firstSeenLoop firstSeen now ids))"
  by (induction firstSeen now ids rule: firstSeenLoop.induct) (auto simp: distinct_map_set)

lemma distinct_loadFirstSeen: "distinct (map_keys (loadFirstSeen stored))"
  using distinct_new_Map[of "[]"] by (cases stored) (simp_all add: loadFirstSeen_def map_keys_def)

lemma map_get_saveFirstSeen:
  assumes "distinct (map_keys m)"
  shows "map_get (saveFirstSeen localeCompare m) i = map_get m i"
proof -
  let ?sorted = "array_sort (\<lambda>(a, _) (b, _). localeCompare a b) m"
  have "distinct (map fst ?sorted)"
    using assms by (simp add: distinct_keys_array_sort map_keys_def)
  then have "map_get (new_Map [] ?sorted) i = map_of ?sorted i"
    by (rule map_get_new_Map_distinct)
  also have "\<dots> = map_of m i"
    using assms by (simp add: map_of_array_sort map_keys_def)
  finally show ?thesis
    by (simp add: saveFirstSeen_def map_get_def)
qed


subsection \<open>The index\<close>

lemma firstSeenFile_crawl_main:
  "firstSeenFile (crawl_main localeCompare boardData stored now) =
     saveFirstSeen localeCompare
       (firstSeenLoop (loadFirstSeen stored) now (map_keys (collectBoards [] boardData BOARDS)))"
  by (simp add: crawl_main_def Let_def)

lemma items_crawl_main:
  "items (indexFile (crawl_main localeCompare boardData stored now)) =
     array_sort byInstallsAllTime
       (map (buildItem (installsLoop [] (boardData AllTime)) (installsLoop [] (boardData Trending))
               (installsLoop [] (boardData Hot))
               (firstSeenLoop (loadFirstSeen stored) now (map_keys (collectBoards [] boardData BOARDS))))
          (collectBoards [] boardData BOARDS))"
  by (simp add: crawl_main_def Let_def)

lemma item_id_buildItem: "item_id (buildItem a t h fs e) = fst e"
  by (cases e) (simp add: buildItem_def)

lemma filter_key_distinct:
  "distinct (map fst m) \<Longrightarrow> map_of m i = Some r \<Longrightarrow> filter (\<lambda>e. fst e = i) m = [(i, r)]"
proof (induction m)
  case Nil
  then show ?case by simp
next
  case (Cons e m)
  show ?case
  proof (cases "fst e = i")
    case True
    with Cons.prems have "e = (i, r)" "i \<notin> fst ` set m"
      by (cases e; auto)+
    then show ?thesis
      by (auto simp: filter_empty_conv)
  next
    case False
    with Cons show ?thesis by (cases e) auto
  qed
qed

lemma sorted_index_items:
  "sorted_wrt (\<lambda>a b. installsAllTime a \<ge> installsAllTime b) (array_sort byInstallsAllTime xs)"
proof -
  have "sorted (map (\<lambda>it. - installsAllTime it) (array_sort byInstallsAllTime xs))"
    by (simp add: array_sort_sort_key)
  then show ?thesis
    by (simp add: sorted_map) 
qed

subsection \<open>The sample run, evaluated\<close>

lemma sampleIndex_eq:
  "sampleIndex =
     [\<lparr>item_id = ''x/y'', providerId = ''skills.sh'', source = ''x'', skillId = ''y'',
        title = ''Other'', link = ''https://skills.sh/skills/x/y'', installsAllTime = 9,
        installsTrending = 0, installsHot = 0, firstSeenAt = Some sampleNow,
        description = None, skillMdPath = None\<rparr>,
      \<lparr>item_id = ''a/b'', providerId = ''skills.sh'', source = ''a'', skillId = ''b'',
        title = ''First'', link = ''https://skills.sh/skills/a/b'', installsAllTime = 7,
        installsTrending = 1, installsHot = 0, firstSeenAt = Some ''2024-01-01T00:00:00Z'',
        description = None, skillMdPath = None\<rparr>,
      \<lparr>item_id = ''c/d'', providerId = ''skills.sh'', source = ''c'', skillId = ''d'',
        title = ''Third'', link = ''https://skills.sh/skills/c/d'', installsAllTime = 0,
        installsTrending = 5, installsHot = 0, firstSeenAt = Some sampleNow,
        description = None, skillMdPath = None\<rparr>]"
  by (simp add: sampleIndex_def crawl_main_def Let_def sampleBoards_def sampleStored_def BOARDS_def
      skill_id_def map_has_def map_get_def map_keys_def loadFirstSeen_def buildItem_def
      array_sort_def byInstallsAllTime_def encodeURIComponent_def encode_unit_def
      uri_unreserved_def)

lemma sample_loaded:
  "map_get (loadFirstSeen sampleStored) ''a/b'' = Some ''2024-01-01T00:00:00Z''"
  "map_get (loadFirstSeen sampleStored) ''c/d'' = None"
  by (simp_all add: sampleStored_def loadFirstSeen_def map_get_def)

lemma sample_rows:
  "''a/b'' \<in> skill_id ` set (allRows sampleBoards)"
  "''c/d'' \<in> skill_id ` set (allRows sampleBoards)"
  "find (\<lambda>r. skill_id r = ''a/b'') (allRows sampleBoards) =
     Some \<lparr> ApiSkill.source = ''a'', skillId = ''b'', name = ''First'', installs = 3 \<rparr>"
  by (simp_all add: allRows_def sampleBoards_def skill_id_def)

lemma sample_absent:
  "item_id (sampleIndex ! 2) \<notin> skill_id ` set (sampleBoards AllTime)"
  "item_id (sampleIndex ! 0) \<notin> skill_id ` set (sampleBoards Trending)"
  "item_id (sampleIndex ! 0) \<notin> skill_id ` set (sampleBoards Hot)"
  by (simp_all add: sampleIndex_eq sampleBoards_def skill_id_def)

text \<open>
  Claim C2. Whatever first-seen file the run loads, an id that the loaded map holds has
  the same timestamp in the file saved by the run, and an id seen on some board during
  the run that the loaded map does not hold is saved with the timestamp \<open>now\<close> of the run.
\<close>

theorem first_seen_append_only:
  "(map_get (loadFirstSeen stored) i = Some v \<longrightarrow>
      map_get (firstSeenFile (crawl_main localeCompare boardData stored now)) i = Some v) \<and>
   (i \<in> skill_id ` set (allRows boardData) \<and> map_get (loadFirstSeen stored) i = None \<longrightarrow>
      map_get (firstSeenFile (crawl_main localeCompare boardData stored now)) i = Some now)"
proof -
  let ?ids = "map_keys (collectBoards [] boardData BOARDS)"
  have "distinct (map_keys (firstSeenLoop (loadFirstSeen stored) now ?ids))"
    by (simp add: distinct_firstSeenLoop distinct_loadFirstSeen)
  then have "map_get (firstSeenFile (crawl_main localeCompare boardData stored now)) i =
      map_get (firstSeenLoop (loadFirstSeen stored) now ?ids) i"
    by (simp add: firstSeenFile_crawl_main map_get_saveFirstSeen)
  moreover have "set ?ids = skill_id ` set (allRows boardData)"
    by (simp add: map_keys_skillMap set_firstEncountered)
  ultimately show ?thesis
    by (simp add: map_get_firstSeenLoop)
qed

theorem first_seen_append_only_witness:
  "map_get (loadFirstSeen sampleStored) ''a/b'' = Some ''2024-01-01T00:00:00Z'' \<and>
   map_get (firstSeenFile (crawl_main compareCodeUnits sampleBoards sampleStored sampleNow)) ''a/b'' =
     Some ''2024-01-01T00:00:00Z'' \<and>
   ''c/d'' \<in> skill_id ` set (allRows sampleBoards) \<and>
   map_get (loadFirstSeen sampleStored) ''c/d'' = None \<and>
   map_get (firstSeenFile (crawl_main compareCodeUnits sampleBoards sampleStored sampleNow)) ''c/d'' =
     Some sampleNow"
proof -
  note old = sample_loaded(1) and new = sample_rows(2) sample_loaded(2)
  have kept: "map_get (firstSeenFile (crawl_main compareCodeUnits sampleBoards sampleStored sampleNow))
      ''a/b'' = Some ''2024-01-01T00:00:00Z''"
    using first_seen_append_only[where stored = sampleStored and i = "''a/b''"
        and v = "''2024-01-01T00:00:00Z''"] old by blast
  have fresh: "map_get (firstSeenFile (crawl_main compareCodeUnits sampleBoards sampleStored sampleNow))
      ''c/d'' = Some sampleNow"
    using first_seen_append_only[where stored = sampleStored and i = "''c/d''"
        and boardData = sampleBoards] new by blast
  show ?thesis
    using old new kept fresh by blast
qed

text \<open>
  Claim C3 says that the count a board's installs map records for an id is the maximum of
  the \<open>installs\<close> values of the board's rows with that id. The running maximum starts from
  0 (\<open>map.get(id) ?? 0\<close>), so this fails where every row of the id is negative: for the one
  row \<open>a/b\<close> with \<open>installs = -5\<close> the map records 0, and the maximum over the rows is -5.
\<close>

theorem board_installs_negative_rows:
  "''a/b'' \<in> skill_id ` set negativeRows \<and>
   map_get (installsLoop [] negativeRows) ''a/b'' = Some 0 \<and>
   Max (installs ` {s \<in> set negativeRows. skill_id s = ''a/b''}) = - 5 \<and>
   map_get (installsLoop [] negativeRows) ''a/b'' \<noteq>
     Some (Max (installs ` {s \<in> set negativeRows. skill_id s = ''a/b''}))"
proof -
  have rows: "{s \<in> set negativeRows. skill_id s = ''a/b''} =
      {\<lparr> ApiSkill.source = ''a'', skillId = ''b'', name = ''Negative'', installs = - 5 \<rparr>}"
    by (auto simp: negativeRows_def skill_id_def)
  have recorded: "map_get (installsLoop [] negativeRows) ''a/b'' = Some 0"
    by (simp add: negativeRows_def skill_id_def map_get_def Let_def)
  have "''a/b'' \<in> skill_id ` set negativeRows"
    by (simp add: negativeRows_def skill_id_def)
  then show ?thesis
    by (simp add: rows recorded)
qed

text \<open>
  Claim C3, amended. For each board and every id, the installs map built from the rows of
  the board records, for an id some row of the board bears, the maximum of 0 and the
  \<open>installs\<close> values of the rows of the board with that id, and records nothing for an id
  no row bears. Hence the recorded count is the maximum over the rows with that id
  whenever one of them is not negative.
\<close>

theorem board_installs_is_max_with_zero:
  "map_get (installsLoop [] (boardData board)) i =
     (if i \<in> skill_id ` set (boardData board)
      then Some (Max (insert 0 (installs ` {s \<in> set (boardData board). skill_id s = i})))
      else None) \<and>
   ((\<exists>s\<in>set (boardData board). skill_id s = i \<and> 0 \<le> installs s) \<longrightarrow>
      map_get (installsLoop [] (boardData board)) i =
        Some (Max (installs ` {s \<in> set (boardData board). skill_id s = i})))"
proof -
  let ?S = "installs ` {s \<in> set (boardData board). skill_id s = i}"
  have rows: "set (map installs (filter (\<lambda>s. skill_id s = i) (boardData board))) = ?S"
    by auto
  have general: "map_get (installsLoop [] (boardData board)) i =
      (if i \<in> skill_id ` set (boardData board) then Some (Max (insert 0 ?S)) else None)"
    using rows by (simp add: map_get_installsLoop_fold fold_max_Max map_get_Nil del: set_map)
  have "map_get (installsLoop [] (boardData board)) i = Some (Max ?S)"
    if "\<exists>s\<in>set (boardData board). skill_id s = i \<and> 0 \<le> installs s"
  proof -
    from that obtain s where s: "s \<in> set (boardData board)" "skill_id s = i" "0 \<le> installs s"
      by blast
    then have "installs s \<in> ?S" and "finite ?S"
      by auto
    then have "0 \<le> Max ?S"
      using s(3) Max_ge[of ?S "installs s"] by linarith
    moreover have "?S \<noteq> {}"
      using \<open>installs s \<in> ?S\<close> by blast
    ultimately have "Max (insert 0 ?S) = Max ?S"
      using \<open>finite ?S\<close> by (simp add: max_def)
    moreover have "i \<in> skill_id ` set (boardData board)"
      using s by blast
    ultimately show ?thesis
      using general by simp
  qed
  with general show ?thesis
    by blast
qed

theorem board_installs_is_max_with_zero_witness:
  "(\<exists>s\<in>set (sampleBoards AllTime). skill_id s = ''a/b'' \<and> 0 \<le> installs s) \<and>
   map_get (installsLoop [] (sampleBoards AllTime)) ''a/b'' =
     Some (Max (installs ` {s \<in> set (sampleBoards AllTime). skill_id s = ''a/b''})) \<and>
   map_get (installsLoop [] (sampleBoards AllTime)) ''a/b'' = Some 7"
proof -
  have row: "\<exists>s\<in>set (sampleBoards AllTime). skill_id s = ''a/b'' \<and> 0 \<le> installs s"
    by (simp add: sampleBoards_def skill_id_def)
  have "map_get (installsLoop [] (sampleBoards AllTime)) ''a/b'' =
      Some (Max (installs ` {s \<in> set (sampleBoards AllTime). skill_id s = ''a/b''}))"
    using board_installs_is_max_with_zero[of sampleBoards AllTime "''a/b''"] row by blast
  moreover have "map_get (installsLoop [] (sampleBoards AllTime)) ''a/b'' = Some 7"
    by (simp add: sampleBoards_def skill_id_def map_get_def Let_def)
  ultimately show ?thesis
    using row by blast
qed

text \<open>
  Claim C4. For every id borne by a row of some board, the index has exactly one item
  with that id, and its title, source, skillId and link come from the first row with that
  id among the rows of all-time, then trending, then hot.
\<close>

theorem index_one_item_per_id:
  assumes "i \<in> skill_id ` set (allRows boardData)"
  shows "\<exists>r it.
     find (\<lambda>r. skill_id r = i) (allRows boardData) = Some r \<and>
     filter (\<lambda>it. item_id it = i) (items (indexFile (crawl_main localeCompare boardData stored now))) = [it] \<and>
     title it = name r \<and>
     SkillIndexItem.source it = ApiSkill.source r \<and>
     SkillIndexItem.skillId it = ApiSkill.skillId r \<and>
     link it = ''https://skills.sh/skills/'' @ encodeURIComponent (ApiSkill.source r) @ ''/''
                 @ encodeURIComponent (ApiSkill.skillId r)"
proof -
  let ?skillMap = "collectBoards [] boardData BOARDS"
  have "find (\<lambda>r. skill_id r = i) (allRows boardData) \<noteq> None"
    using assms by (auto simp: find_None_iff)
  then obtain r where r: "find (\<lambda>r. skill_id r = i) (allRows boardData) = Some r"
    by blast
  then have "map_of ?skillMap i = Some r"
    using map_get_skillMap[of boardData i] by (simp add: map_get_def)
  moreover have "distinct (map fst ?skillMap)"
    using map_keys_skillMap[of boardData] by (simp add: map_keys_def distinct_firstEncountered)
  ultimately have one: "filter (\<lambda>e. fst e = i) ?skillMap = [(i, r)]"
    by (rule filter_key_distinct[rotated])
  define it where "it = buildItem (installsLoop [] (boardData AllTime))
      (installsLoop [] (boardData Trending)) (installsLoop [] (boardData Hot))
      (firstSeenLoop (loadFirstSeen stored) now (map_keys ?skillMap)) (i, r)"
  have "filter (\<lambda>it. item_id it = i) (items (indexFile (crawl_main localeCompare boardData stored now))) = [it]"
    by (simp add: items_crawl_main array_sort_sort_key filter_sort filter_map o_def
        item_id_buildItem one it_def)
  moreover have "title it = name r" "SkillIndexItem.source it = ApiSkill.source r"
    "SkillIndexItem.skillId it = ApiSkill.skillId r"
    "link it = ''https://skills.sh/skills/'' @ encodeURIComponent (ApiSkill.source r) @ ''/''
                 @ encodeURIComponent (ApiSkill.skillId r)"
    by (simp_all add: it_def buildItem_def)
  ultimately show ?thesis
    using r by blast
qed


theorem index_one_item_per_id_witness:
  "''a/b'' \<in> skill_id ` set (allRows sampleBoards) \<and>
   (\<exists>it. filter (\<lambda>it. item_id it = ''a/b'')
            (items (indexFile (crawl_main compareCodeUnits sampleBoards sampleStored sampleNow))) = [it] \<and>
         title it = ''First'' \<and> SkillIndexItem.source it = ''a'' \<and> SkillIndexItem.skillId it = ''b'' \<and>
         link it = ''https://skills.sh/skills/a/b'')"
proof -
  obtain r it where
    "find (\<lambda>r. skill_id r = ''a/b'') (allRows sampleBoards) = Some r"
    "filter (\<lambda>it. item_id it = ''a/b'')
       (items (indexFile (crawl_main compareCodeUnits sampleBoards sampleStored sampleNow))) = [it]"
    "title it = name r" "SkillIndexItem.source it = ApiSkill.source r"
    "SkillIndexItem.skillId it = ApiSkill.skillId r"
    "link it = ''https://skills.sh/skills/'' @ encodeURIComponent (ApiSkill.source r) @ ''/''
                 @ encodeURIComponent (ApiSkill.skillId r)"
    using index_one_item_per_id[OF sample_rows(1), of compareCodeUnits sampleStored sampleNow]
    by blast
  then show ?thesis
    using sample_rows(1)
    by (auto simp: sample_rows(3) encodeURIComponent_def encode_unit_def uri_unreserved_def)
qed

lemma map_filter_inj_on:
  assumes "inj_on g (set xs)"
  shows "map g (filter P xs) = filter (\<lambda>k. k \<in> g ` {x \<in> set xs. P x}) (map g xs)"
proof -
  have "P x \<longleftrightarrow> g x \<in> g ` {x \<in> set xs. P x}" if "x \<in> set xs" for x
    using that assms by (auto dest: inj_onD)
  then have "filter P xs = filter (\<lambda>x. g x \<in> g ` {x \<in> set xs. P x}) xs"
    by (intro filter_cong) auto
  then show ?thesis
    by (simp add: filter_map o_def)
qed

text \<open>
  Claim C5. The items of the index are sorted by \<open>installsAllTime\<close>, greatest first, and
  the items with the same value \<open>n\<close> stand in the order in which their ids are first
  encountered in the rows of all-time, trending and hot: their ids, read off the index,
  are the first-encounter sequence of all ids restricted to them.
\<close>

theorem index_sorted_stable:
  "sorted_wrt (\<lambda>a b. installsAllTime a \<ge> installsAllTime b)
     (items (indexFile (crawl_main localeCompare boardData stored now))) \<and>
   map item_id (filter (\<lambda>it. installsAllTime it = n)
     (items (indexFile (crawl_main localeCompare boardData stored now)))) =
   filter (\<lambda>i. i \<in> item_id ` {it \<in> set (items (indexFile (crawl_main localeCompare boardData stored now))).
                                installsAllTime it = n})
     (firstEncountered (map skill_id (allRows boardData)))"
proof -
  let ?skillMap = "collectBoards [] boardData BOARDS"
  define items0 where "items0 = map (buildItem (installsLoop [] (boardData AllTime))
      (installsLoop [] (boardData Trending)) (installsLoop [] (boardData Hot))
      (firstSeenLoop (loadFirstSeen stored) now (map_keys ?skillMap))) ?skillMap"
  have items: "items (indexFile (crawl_main localeCompare boardData stored now)) =
      array_sort byInstallsAllTime items0"
    by (simp add: items_crawl_main items0_def)
  have ids0: "map item_id items0 = firstEncountered (map skill_id (allRows boardData))"
    using map_keys_skillMap[of boardData]
    by (simp add: items0_def o_def item_id_buildItem map_keys_def)
  then have "distinct (map item_id items0)"
    by (simp add: distinct_firstEncountered)
  then have inj: "inj_on item_id (set items0)"
    by (simp add: distinct_map)
  have "filter (\<lambda>it. installsAllTime it = n) (array_sort byInstallsAllTime items0) =
      filter (\<lambda>it. installsAllTime it = n) items0"
    using sort_key_stable[of "\<lambda>it. - installsAllTime it" "- n" items0]
    by (simp add: array_sort_sort_key)
  then have "map item_id (filter (\<lambda>it. installsAllTime it = n) (array_sort byInstallsAllTime items0)) =
      filter (\<lambda>i. i \<in> item_id ` {it \<in> set items0. installsAllTime it = n}) (map item_id items0)"
    by (simp add: map_filter_inj_on[OF inj])
  then show ?thesis
    by (simp add: items sorted_index_items set_array_sort ids0)
qed

lemma index_item_installs:
  assumes "it \<in> set (items (indexFile (crawl_main localeCompare boardData stored now)))"
  shows "installsAllTime it =
           (case map_get (installsLoop [] (boardData AllTime)) (item_id it) of None \<Rightarrow> 0 | Some v \<Rightarrow> v)"
    and "installsTrending it =
           (case map_get (installsLoop [] (boardData Trending)) (item_id it) of None \<Rightarrow> 0 | Some v \<Rightarrow> v)"
    and "installsHot it =
           (case map_get (installsLoop [] (boardData Hot)) (item_id it) of None \<Rightarrow> 0 | Some v \<Rightarrow> v)"
  using assms by (auto simp: items_crawl_main set_array_sort buildItem_def)

text \<open>
  Claim C10. An index item whose id no row of the all-time board bears has
  \<open>installsAllTime = 0\<close>, and likewise \<open>installsTrending\<close> and \<open>installsHot\<close> are 0 when
  the id is absent from those boards; hence such an item (at position \<open>p\<close>) stands behind
  every item (at position \<open>q\<close>) with at least one all-time install.
\<close>

theorem absent_board_installs_zero:
  fixes localeCompare boardData stored now
  defines "index_items \<equiv> items (indexFile (crawl_main localeCompare boardData stored now))"
  shows "(it \<in> set index_items \<and> item_id it \<notin> skill_id ` set (boardData AllTime) \<longrightarrow>
            installsAllTime it = 0) \<and>
         (it \<in> set index_items \<and> item_id it \<notin> skill_id ` set (boardData Trending) \<longrightarrow>
            installsTrending it = 0) \<and>
         (it \<in> set index_items \<and> item_id it \<notin> skill_id ` set (boardData Hot) \<longrightarrow>
            installsHot it = 0) \<and>
         (p < length index_items \<and> q < length index_items \<and>
          item_id (index_items ! p) \<notin> skill_id ` set (boardData AllTime) \<and>
          1 \<le> installsAllTime (index_items ! q) \<longrightarrow> q < p)"
proof -
  have zero: "installsAllTime x = 0"
    if "x \<in> set index_items" "item_id x \<notin> skill_id ` set (boardData AllTime)" for x
    using that index_item_installs(1)[of x localeCompare boardData stored now]
    by (simp add: index_items_def map_get_installsLoop_absent)
  have sorted: "sorted_wrt (\<lambda>a b. installsAllTime a \<ge> installsAllTime b) index_items"
    by (simp add: index_items_def items_crawl_main sorted_index_items)
  have order: "q < p"
    if "p < length index_items" "q < length index_items"
      "item_id (index_items ! p) \<notin> skill_id ` set (boardData AllTime)"
      "1 \<le> installsAllTime (index_items ! q)"
  proof (rule ccontr)
    assume "\<not> q < p"
    moreover have "installsAllTime (index_items ! p) = 0"
      using that by (intro zero) auto
    ultimately have "p < q"
      using that by (cases "p = q") auto
    then have "installsAllTime (index_items ! p) \<ge> installsAllTime (index_items ! q)"
      using sorted_wrt_nth_less[OF sorted, of p q] that by simp
    with \<open>installsAllTime (index_items ! p) = 0\<close> that show False by simp
  qed
  show ?thesis
    using zero order
      index_item_installs(2)[of it localeCompare boardData stored now]
      index_item_installs(3)[of it localeCompare boardData stored now]
    by (auto simp: index_items_def map_get_installsLoop_absent)
qed

theorem absent_board_installs_zero_witness:
  "sampleIndex ! 2 \<in> set sampleIndex \<and>
   item_id (sampleIndex ! 2) \<notin> skill_id ` set (sampleBoards AllTime) \<and>
   installsAllTime (sampleIndex ! 2) = 0 \<and>
   sampleIndex ! 0 \<in> set sampleIndex \<and>
   item_id (sampleIndex ! 0) \<notin> skill_id ` set (sampleBoards Trending) \<and>
   installsTrending (sampleIndex ! 0) = 0 \<and>
   item_id (sampleIndex ! 0) \<notin> skill_id ` set (sampleBoards Hot) \<and>
   installsHot (sampleIndex ! 0) = 0 \<and>
   2 < length sampleIndex \<and> 0 < length sampleIndex \<and>
   1 \<le> installsAllTime (sampleIndex ! 0) \<and> (0::nat) < 2"
proof -
  have len: "2 < length sampleIndex" "0 < length sampleIndex"
    and popular: "1 \<le> installsAllTime (sampleIndex ! 0)"
    by (simp_all add: sampleIndex_eq)
  then have mem: "sampleIndex ! 2 \<in> set sampleIndex" "sampleIndex ! 0 \<in> set sampleIndex"
    by (simp_all only: nth_mem)
  have "installsAllTime (sampleIndex ! 2) = 0"
    using absent_board_installs_zero[where it = "sampleIndex ! 2" and boardData = sampleBoards
        and localeCompare = compareCodeUnits and stored = sampleStored and now = sampleNow]
      mem sample_absent unfolding sampleIndex_def by blast
  moreover have "installsTrending (sampleIndex ! 0) = 0" "installsHot (sampleIndex ! 0) = 0"
    using absent_board_installs_zero[where it = "sampleIndex ! 0" and boardData = sampleBoards
        and localeCompare = compareCodeUnits and stored = sampleStored and now = sampleNow]
      mem sample_absent unfolding sampleIndex_def by blast+
  moreover have "(0::nat) < 2"
    using absent_board_installs_zero[where p = 2 and q = 0 and boardData = sampleBoards
        and localeCompare = compareCodeUnits and stored = sampleStored and now = sampleNow]
      len popular sample_absent unfolding sampleIndex_def by blast
  ultimately show ?thesis
    using len popular mem sample_absent by blast
qed

subsection \<open>The description extractor\<close>

lemma truncateDescription_length:
  "truncateDescription desc = Some d \<Longrightarrow> 11 \<le> length d \<and> length d \<le> 200"
  by (auto simp: truncateDescription_def Let_def split: if_splits)

lemmas extract_eval =
  extractDescription_def extractedText_def truncateDescription_def newline_def
  stripFrontmatter_def startsWith_def indexOf_def trim_def is_space_def replaceLinks.simps
  match_link_def stripMarkers_def Let_def

lemma extractedText_Hi: "extractedText ''Hi.'' = Some ''Hi.''"
  by (simp add: extract_eval)

lemma extractedText_longMd: "extractedText longMd = Some longMd"
  by code_simp

lemma length_longMd: "length longMd = 250"
  by (simp add: longMd_def)

text \<open>
  Claim C7. On the sample document of the specification (front matter, a heading, a
  blank line, a paragraph with emphasis, a blank line, more text) \<open>extractDescription\<close>
  returns exactly the paragraph without its emphasis markers.
\<close>

theorem extractDescription_sample:
  "extractDescription
     (''---'' @ [newline] @ ''title: x'' @ [newline] @ ''---'' @ [newline] @
      ''# Heading'' @ [newline] @ [newline] @
      ''This is **the** description.'' @ [newline] @ [newline] @ ''More text.'') =
   Some ''This is the description.''"
  by (simp add: extract_eval)

text \<open>
  Claim C8. For every input, a description returned by \<open>extractDescription\<close> has at least
  11 and at most 200 characters. With \<open>desc\<close> the text after extraction and cleaning: a
  text shorter than 11 characters gives null, a text of 11 to 200 characters is returned
  as it is, and a longer text is cut to its first 197 characters followed by three dots,
  200 characters in all.
\<close>

theorem extractDescription_length:
  "(extractDescription md = Some d \<longrightarrow> 11 \<le> length d \<and> length d \<le> 200) \<and>
   (extractedText md = Some desc \<and> length desc < 11 \<longrightarrow> extractDescription md = None) \<and>
   (extractedText md = Some desc \<and> 11 \<le> length desc \<and> length desc \<le> 200 \<longrightarrow>
      extractDescription md = Some desc) \<and>
   (extractedText md = Some desc \<and> 200 < length desc \<longrightarrow>
      extractDescription md = Some (take 197 desc @ ''...'') \<and>
      length (take 197 desc @ ''...'') = 200)"
  by (auto simp: extractDescription_def truncateDescription_def Let_def split: option.splits if_splits)

theorem extractDescription_length_witness:
  "extractDescription sampleMd = Some ''This is the description.'' \<and>
   11 \<le> length ''This is the description.'' \<and> length ''This is the description.'' \<le> 200 \<and>
   extractedText ''Hi.'' = Some ''Hi.'' \<and> length ''Hi.'' < 11 \<and> extractDescription ''Hi.'' = None \<and>
   extractedText sampleMd = Some ''This is the description.'' \<and>
   extractedText longMd = Some longMd \<and> 200 < length longMd \<and>
   extractDescription longMd = Some (take 197 longMd @ ''...'') \<and>
   length (take 197 longMd @ ''...'') = 200"
proof -
  have sample: "extractedText sampleMd = Some ''This is the description.''"
    by (simp add: extract_eval sampleMd_def)
  have len: "11 \<le> length ''This is the description.''" "length ''This is the description.'' \<le> 200"
    "length ''Hi.'' < 11" "200 < length longMd"
    by (simp_all add: length_longMd)
  have mid: "extractDescription sampleMd = Some ''This is the description.''"
    using extractDescription_length[of sampleMd _ "''This is the description.''"] sample len by blast
  have short: "extractDescription ''Hi.'' = None"
    using extractDescription_length[of "''Hi.''" _ "''Hi.''"] extractedText_Hi len by blast
  have long: "extractDescription longMd = Some (take 197 longMd @ ''...'')"
    "length (take 197 longMd @ ''...'') = 200"
    using extractDescription_length[of longMd _ longMd] extractedText_longMd len by blast+
  show ?thesis
    using sample len mid short long extractedText_Hi extractedText_longMd by blast
qed

subsection \<open>The enrichment pass\<close>

lemma set_slice0: "set (slice0 xs n) \<subseteq> set xs"
  by (auto simp: slice0_def dest: in_set_takeD)

lemma set_needsFetch: "set (needsFetch TOP_N index) \<subseteq> set (items index)"
  using set_slice0[of "items index" TOP_N] by (auto simp: needsFetch_def)

lemma needsFetch_falsy:
  "x \<in> set (needsFetch TOP_N index) \<Longrightarrow> \<not> truthy (SkillIndexItem.description x)"
  by (simp add: needsFetch_def)

lemma map_get_new_Map_keyed:
  "inj_on f (insert x (set ys)) \<Longrightarrow>
   map_get (new_Map m (map (\<lambda>y. (f y, g y)) ys)) (f x) =
     (if x \<in> set ys then Some (g x) else map_get m (f x))"
proof (induction ys arbitrary: m)
  case Nil
  show ?case by simp
next
  case (Cons y ys)
  from Cons.prems have inj: "inj_on f (insert x (set ys))" and eq: "f x = f y \<longleftrightarrow> x = y"
    by (auto simp: inj_on_def)
  show ?case
    using eq by (auto simp: Cons.IH[OF inj] map_get_map_set)
qed

lemma patch_of_item:
  assumes "distinct (map item_id (items index))" and "x \<in> set (items index)"
  shows "patchItem (new_Map [] (processPool (\<lambda>item. (item_id item, fetch item)) (needsFetch TOP_N index))) x =
     (if x \<in> set (needsFetch TOP_N index) \<and> truthy (FetchResult.description (fetch x))
      then x\<lparr> SkillIndexItem.description := FetchResult.description (fetch x),
              skillMdPath := mdPath (fetch x) \<rparr>
      else x)"
proof -
  have "inj_on item_id (set (items index))"
    using assms(1) by (simp add: distinct_map)
  moreover have "insert x (set (needsFetch TOP_N index)) \<subseteq> set (items index)"
    using assms(2) set_needsFetch[of TOP_N index] by simp
  ultimately have "inj_on item_id (insert x (set (needsFetch TOP_N index)))"
    by (rule inj_on_subset)
  then show ?thesis
    by (simp add: patchItem_def processPool_def map_get_new_Map_keyed map_get_Nil)
qed

lemma patchItem_frame:
  "patchItem descMap x = x\<lparr> SkillIndexItem.description := SkillIndexItem.description (patchItem descMap x),
      skillMdPath := skillMdPath (patchItem descMap x) \<rparr>"
  by (simp add: patchItem_def split: option.splits)

lemma patchItem_keeps_description:
  "SkillIndexItem.description x \<noteq> None \<Longrightarrow> SkillIndexItem.description (patchItem descMap x) \<noteq> None"
  by (auto simp: patchItem_def truthy_def split: option.splits)

text \<open>
  Claim C6. For the item at any position \<open>k\<close> of the index, before (\<open>old\<close>) and after
  (\<open>new\<close>) the enrichment pass: the pass keeps the number of items; only the fields
  \<open>description\<close> and \<open>skillMdPath\<close> can differ; a description that was set is never replaced
  by null. In an index whose ids are unique (as the crawler writes it) the item is
  modified only when it was fetched and its fetch produced a description, and then it
  gets the description and path of its own fetch; an item whose fetch produced no
  description and an item that already had a description stay as they were.
\<close>

theorem enrich_patches_only_described:
  fixes TOP_N fetchSkillDescription index k
  defines "old \<equiv> items index ! k"
    and "new \<equiv> items (enrich_main TOP_N fetchSkillDescription index) ! k"
  assumes "k < length (items index)"
  shows "length (items (enrich_main TOP_N fetchSkillDescription index)) = length (items index) \<and>
         new = old\<lparr> SkillIndexItem.description := SkillIndexItem.description new,
                     skillMdPath := skillMdPath new \<rparr> \<and>
         (SkillIndexItem.description old \<noteq> None \<longrightarrow> SkillIndexItem.description new \<noteq> None) \<and>
         (distinct (map item_id (items index)) \<longrightarrow>
            (new \<noteq> old \<longrightarrow>
               old \<in> set (needsFetch TOP_N index) \<and>
               truthy (FetchResult.description (fetchSkillDescription old)) \<and>
               SkillIndexItem.description new = FetchResult.description (fetchSkillDescription old) \<and>
               skillMdPath new = mdPath (fetchSkillDescription old)) \<and>
            (\<not> truthy (FetchResult.description (fetchSkillDescription old)) \<longrightarrow> new = old) \<and>
            (truthy (SkillIndexItem.description old) \<longrightarrow> new = old))"
proof -
  let ?descMap = "new_Map [] (processPool (\<lambda>item. (item_id item, fetchSkillDescription item))
      (needsFetch TOP_N index))"
  have new: "new = patchItem ?descMap old"
    using assms(3) by (simp add: new_def old_def enrich_main_def Let_def)
  have mem: "old \<in> set (items index)"
    using assms(3) by (simp add: old_def)
  have "distinct (map item_id (items index)) \<Longrightarrow>
      new = (if old \<in> set (needsFetch TOP_N index) \<and> truthy (FetchResult.description (fetchSkillDescription old))
             then old\<lparr> SkillIndexItem.description := FetchResult.description (fetchSkillDescription old),
                      skillMdPath := mdPath (fetchSkillDescription old) \<rparr>
             else old)"
    unfolding new using mem by (intro patch_of_item)
  moreover have "truthy (SkillIndexItem.description old) \<Longrightarrow> old \<notin> set (needsFetch TOP_N index)"
    using needsFetch_falsy by blast
  moreover have "length (items (enrich_main TOP_N fetchSkillDescription index)) = length (items index)"
    by (simp add: enrich_main_def Let_def)
  moreover have "new = old\<lparr> SkillIndexItem.description := SkillIndexItem.description new,
                     skillMdPath := skillMdPath new \<rparr>"
    unfolding new by (rule patchItem_frame)
  moreover have "SkillIndexItem.description old \<noteq> None \<longrightarrow> SkillIndexItem.description new \<noteq> None"
    unfolding new by (simp add: patchItem_keeps_description)
  ultimately show ?thesis
    by (auto split: if_splits)
qed

lemma enrich_sample:
  "items (enrich_main 2000 sampleFetch enrichIndex) =
     [describedItem,
      foundItem\<lparr> SkillIndexItem.description := Some ''A skill found upstream.'',
                 skillMdPath := Some ''data/skills-md/a/b/SKILL.md'' \<rparr>,
      missingItem]"
  "needsFetch 2000 enrichIndex = [foundItem, missingItem]"
  by (simp_all add: enrich_main_def needsFetch_def slice0_def processPool_def patchItem_def
      enrichIndex_def describedItem_def foundItem_def missingItem_def sampleItem_def
      sampleFetch_def truthy_def map_get_def Let_def)

theorem enrich_patches_only_described_witness:
  "2 < length (items enrichIndex) \<and>
   distinct (map item_id (items enrichIndex)) \<and>
   SkillIndexItem.description (items enrichIndex ! 0) \<noteq> None \<and>
   SkillIndexItem.description (items (enrich_main 2000 sampleFetch enrichIndex) ! 0) \<noteq> None \<and>
   truthy (SkillIndexItem.description (items enrichIndex ! 0)) \<and>
   items (enrich_main 2000 sampleFetch enrichIndex) ! 0 = items enrichIndex ! 0 \<and>
   items (enrich_main 2000 sampleFetch enrichIndex) ! 1 \<noteq> items enrichIndex ! 1 \<and>
   items enrichIndex ! 1 \<in> set (needsFetch 2000 enrichIndex) \<and>
   truthy (FetchResult.description (sampleFetch (items enrichIndex ! 1))) \<and>
   SkillIndexItem.description (items (enrich_main 2000 sampleFetch enrichIndex) ! 1) =
     FetchResult.description (sampleFetch (items enrichIndex ! 1)) \<and>
   skillMdPath (items (enrich_main 2000 sampleFetch enrichIndex) ! 1) =
     mdPath (sampleFetch (items enrichIndex ! 1)) \<and>
   \<not> truthy (FetchResult.description (sampleFetch (items enrichIndex ! 2))) \<and>
   items (enrich_main 2000 sampleFetch enrichIndex) ! 2 = items enrichIndex ! 2"
proof -
  have len: "0 < length (items enrichIndex)" "1 < length (items enrichIndex)"
    "2 < length (items enrichIndex)"
    by (simp_all add: enrichIndex_def)
  have ids: "distinct (map item_id (items enrichIndex))"
    by (simp add: enrichIndex_def describedItem_def foundItem_def missingItem_def)
  have described: "SkillIndexItem.description (items enrichIndex ! 0) \<noteq> None"
    "truthy (SkillIndexItem.description (items enrichIndex ! 0))"
    by (simp_all add: enrichIndex_def describedItem_def truthy_def)
  have changed: "items (enrich_main 2000 sampleFetch enrichIndex) ! 1 \<noteq> items enrichIndex ! 1"
    by (simp add: enrich_sample) (simp add: enrichIndex_def foundItem_def sampleItem_def)
  have failed: "\<not> truthy (FetchResult.description (sampleFetch (items enrichIndex ! 2)))"
    by (simp add: enrichIndex_def missingItem_def sampleFetch_def truthy_def)
  note at0 = enrich_patches_only_described[OF len(1), of 2000 sampleFetch]
    and at1 = enrich_patches_only_described[OF len(2), of 2000 sampleFetch]
    and at2 = enrich_patches_only_described[OF len(3), of 2000 sampleFetch]
  have "SkillIndexItem.description (items (enrich_main 2000 sampleFetch enrichIndex) ! 0) \<noteq> None"
    "items (enrich_main 2000 sampleFetch enrichIndex) ! 0 = items enrichIndex ! 0"
    using at0 ids described by blast+
  moreover have "items enrichIndex ! 1 \<in> set (needsFetch 2000 enrichIndex)"
    "truthy (FetchResult.description (sampleFetch (items enrichIndex ! 1)))"
    "SkillIndexItem.description (items (enrich_main 2000 sampleFetch enrichIndex) ! 1) =
       FetchResult.description (sampleFetch (items enrichIndex ! 1))"
    "skillMdPath (items (enrich_main 2000 sampleFetch enrichIndex) ! 1) =
       mdPath (sampleFetch (items enrichIndex ! 1))"
    using at1 ids changed by blast+
  moreover have "items (enrich_main 2000 sampleFetch enrichIndex) ! 2 = items enrichIndex ! 2"
    using at2 ids failed by blast
  ultimately show ?thesis
    using len ids described changed failed by blast
qed

subsection \<open>The categorizer\<close>

lemma categorizeLoop_first_match:
  "k < length rules \<Longrightarrow> regex_test (snd (rules ! k)) text \<Longrightarrow>
   (\<forall>j<k. \<not> regex_test (snd (rules ! j)) text) \<Longrightarrow>
   categorizeLoop rules text = fst (rules ! k)"
proof (induction rules arbitrary: k)
  case Nil
  then show ?case by simp
next
  case (Cons rule rules)
  obtain category pattern where rule: "rule = (category, pattern)"
    by (cases rule)
  show ?case
  proof (cases k)
    case 0
    with Cons.prems rule show ?thesis by simp
  next
    case (Suc k')
    with Cons.prems have "\<not> regex_test pattern text"
      using rule by auto
    moreover have "categorizeLoop rules text = fst (rules ! k')"
      using Cons.prems Suc by (intro Cons.IH) auto
    ultimately show ?thesis
      using rule Suc by simp
  qed
qed

lemma categorizeLoop_no_match:
  "(\<forall>rule\<in>set rules. \<not> regex_test (snd rule) text) \<Longrightarrow>
   categorizeLoop rules text = ''other''"
proof (induction rules)
  case Nil
  show ?case by simp
next
  case (Cons rule rules)
  obtain category pattern where rule: "rule = (category, pattern)"
    by (cases rule)
  from Cons.prems have "\<not> regex_test pattern text"
    using rule by auto
  moreover have "categorizeLoop rules text = ''other''"
    using Cons.prems by (intro Cons.IH) auto
  ultimately show ?case
    using rule by simp
qed

text \<open>The search finds exactly the matches of a pattern.\<close>

lemma first_unit_simps [simp]: "first_unit [] = None" "first_unit (c # cs) = Some c"
  by (simp_all add: first_unit_def)

lemma unit_before_append: "unit_before prev (xs @ ys) = unit_before (unit_before prev xs) ys"
  by (induction xs arbitrary: prev) simp_all

lemma last_unit_append: "last_unit (xs @ ys) = unit_before (last_unit xs) ys"
  by (simp add: last_unit_def unit_before_append)

lemma match_atoms_complete:
  "keyword_matches alt w \<Longrightarrow> word_boundary (unit_before prev w) (first_unit post) \<Longrightarrow>
   match_atoms alt prev (w @ post)"
proof (induction alt arbitrary: prev w)
  case Nil
  then show ?case by (cases post) simp_all
next
  case (Cons a ps)
  show ?case
  proof (cases a)
    case (Lit p)
    with Cons.prems(1) obtain c cs where w: "w = c # cs" "canonicalize c = canonicalize p"
      "keyword_matches ps cs"
      by (cases w) simp_all
    with Cons.prems(2) have "match_atoms ps (Some c) (cs @ post)"
      by (intro Cons.IH) simp_all
    then show ?thesis
      using Lit w by simp
  next
    case OptAny
    with Cons.prems(1) consider "keyword_matches ps w"
      | c cs where "w = c # cs" "\<not> line_terminator c" "keyword_matches ps cs"
      by (cases w) auto
    then show ?thesis
    proof cases
      case 1
      then have "match_atoms ps prev (w @ post)"
        using Cons.prems(2) by (rule Cons.IH)
      then show ?thesis using OptAny by simp
    next
      case 2
      with Cons.prems(2) have "match_atoms ps (Some c) (cs @ post)"
        by (intro Cons.IH) simp_all
      then show ?thesis using OptAny 2 by simp
    qed
  qed
qed

lemma match_atoms_sound:
  "match_atoms alt prev rest \<Longrightarrow>
   \<exists>w post. rest = w @ post \<and> keyword_matches alt w \<and>
     word_boundary (unit_before prev w) (first_unit post)"
proof (induction alt arbitrary: prev rest)
  case Nil
  then have "rest = [] @ rest \<and> keyword_matches [] [] \<and>
      word_boundary (unit_before prev []) (first_unit rest)"
    by (simp add: first_unit_def)
  then show ?case by blast
next
  case (Cons a ps)
  have consume: "\<exists>w' post. rest = (c # w') @ post \<and> keyword_matches ps w' \<and>
      word_boundary (unit_before prev (c # w')) (first_unit post)"
    if "rest = c # cs" "match_atoms ps (Some c) cs" for c cs
  proof -
    from Cons.IH[OF that(2)] obtain w' post where "cs = w' @ post" "keyword_matches ps w'"
      "word_boundary (unit_before (Some c) w') (first_unit post)"
      by blast
    then have "rest = (c # w') @ post \<and> keyword_matches ps w' \<and>
        word_boundary (unit_before prev (c # w')) (first_unit post)"
      using that(1) by simp
    then show ?thesis by blast
  qed
  show ?case
  proof (cases a)
    case (Lit p)
    from Cons.prems Lit obtain c cs where r: "rest = c # cs" "canonicalize c = canonicalize p"
      "match_atoms ps (Some c) cs"
      by (cases rest) (simp_all split: if_splits)
    from consume[OF r(1) r(3)] obtain w' post where "rest = (c # w') @ post"
      "keyword_matches ps w'" "word_boundary (unit_before prev (c # w')) (first_unit post)"
      by blast
    then have "rest = (c # w') @ post \<and> keyword_matches (Lit p # ps) (c # w') \<and>
        word_boundary (unit_before prev (c # w')) (first_unit post)"
      using r(2) by simp
    then show ?thesis unfolding Lit by blast
  next
    case OptAny
    from Cons.prems OptAny consider c cs where "rest = c # cs" "\<not> line_terminator c"
        "match_atoms ps (Some c) cs"
      | "match_atoms ps prev rest"
      by (cases rest) (simp_all split: if_splits)
    then show ?thesis
    proof cases
      case 1
      from consume[OF 1(1) 1(3)] obtain w' post where "rest = (c # w') @ post"
        "keyword_matches ps w'" "word_boundary (unit_before prev (c # w')) (first_unit post)"
        by blast
      then have "rest = (c # w') @ post \<and> keyword_matches (OptAny # ps) (c # w') \<and>
          word_boundary (unit_before prev (c # w')) (first_unit post)"
        using 1(2) by simp
      then show ?thesis unfolding OptAny by blast
    next
      case 2
      from Cons.IH[OF 2] obtain w post where "rest = w @ post" "keyword_matches ps w"
        "word_boundary (unit_before prev w) (first_unit post)"
        by blast
      then have "rest = w @ post \<and> keyword_matches (OptAny # ps) w \<and>
          word_boundary (unit_before prev w) (first_unit post)"
        by simp
      then show ?thesis unfolding OptAny by blast
    qed
  qed
qed

lemma match_alternatives_iff:
  "match_alternatives alts prev rest \<longleftrightarrow> (\<exists>alt\<in>set alts. match_atoms alt prev rest)"
  by (induction alts) auto

lemma search_complete:
  "word_boundary (unit_before prev pre) (first_unit suf) \<Longrightarrow>
   match_alternatives alts (unit_before prev pre) suf \<Longrightarrow>
   search alts prev (pre @ suf)"
proof (induction pre arbitrary: prev)
  case Nil
  then show ?case by (cases suf) simp_all
next
  case (Cons c pre)
  have "search alts (Some c) (pre @ suf)"
    using Cons.prems by (intro Cons.IH) simp_all
  then show ?case by simp
qed

lemma search_sound:
  "search alts prev str \<Longrightarrow>
   \<exists>pre suf. str = pre @ suf \<and> word_boundary (unit_before prev pre) (first_unit suf) \<and>
     match_alternatives alts (unit_before prev pre) suf"
proof (induction str arbitrary: prev)
  case Nil
  have "word_boundary prev None \<and> match_alternatives alts prev []"
    using Nil.prems by (cases "word_boundary prev None") simp_all
  then have "[] = [] @ [] \<and> word_boundary (unit_before prev []) (first_unit []) \<and>
      match_alternatives alts (unit_before prev []) []"
    by simp
  then show ?case
    by (intro exI[of _ "[]"])
next
  case (Cons c cs)
  show ?case
  proof (cases "word_boundary prev (Some c) \<and> match_alternatives alts prev (c # cs)")
    case True
    then have "c # cs = [] @ c # cs \<and>
        word_boundary (unit_before prev []) (first_unit (c # cs)) \<and>
        match_alternatives alts (unit_before prev []) (c # cs)"
      by simp
    then show ?thesis
      by (intro exI[of _ "[]"] exI[of _ "c # cs"])
  next
    case False
    with Cons.prems have "search alts (Some c) cs"
      by (cases "word_boundary prev (Some c)") simp_all
    from Cons.IH[OF this] obtain pre suf where "cs = pre @ suf"
      "word_boundary (unit_before (Some c) pre) (first_unit suf)"
      "match_alternatives alts (unit_before (Some c) pre) suf"
      by (elim exE conjE)
    then have "c # cs = (c # pre) @ suf \<and>
        word_boundary (unit_before prev (c # pre)) (first_unit suf) \<and>
        match_alternatives alts (unit_before prev (c # pre)) suf"
      by simp
    then show ?thesis
      by (intro exI[of _ "c # pre"] exI[of _ suf])
  qed
qed

lemma regex_test_iff: "regex_test pattern text \<longleftrightarrow> pattern_matches pattern text"
proof
  assume "regex_test pattern text"
  then have "search (map parse_alternative pattern) None text"
    by (simp add: regex_test_def)
  from search_sound[OF this] obtain pre suf where ps: "text = pre @ suf"
    "word_boundary (last_unit pre) (first_unit suf)"
    "match_alternatives (map parse_alternative pattern) (last_unit pre) suf"
    unfolding last_unit_def by blast
  from ps(3) obtain kw where kw: "kw \<in> set pattern"
    "match_atoms (parse_alternative kw) (last_unit pre) suf"
    unfolding match_alternatives_iff by auto
  from match_atoms_sound[OF kw(2)] obtain w post where w: "suf = w @ post"
    "keyword_matches (parse_alternative kw) w"
    "word_boundary (unit_before (last_unit pre) w) (first_unit post)"
    by blast
  have "text = pre @ w @ post \<and> (\<exists>kw\<in>set pattern. keyword_matches (parse_alternative kw) w) \<and>
      word_boundary (last_unit pre) (first_unit (w @ post)) \<and>
      word_boundary (last_unit (pre @ w)) (first_unit post)"
    using ps(1,2) kw(1) w by (auto simp: last_unit_append)
  then show "pattern_matches pattern text"
    unfolding pattern_matches_def by blast
next
  assume "pattern_matches pattern text"
  then obtain pre w post kw where m: "text = pre @ w @ post" "kw \<in> set pattern"
    "keyword_matches (parse_alternative kw) w"
    "word_boundary (last_unit pre) (first_unit (w @ post))"
    "word_boundary (last_unit (pre @ w)) (first_unit post)"
    unfolding pattern_matches_def by blast
  from m(5) have "word_boundary (unit_before (last_unit pre) w) (first_unit post)"
    by (simp add: last_unit_append)
  with m(3) have "match_atoms (parse_alternative kw) (last_unit pre) (w @ post)"
    by (rule match_atoms_complete)
  with m(2) have "match_alternatives (map parse_alternative pattern) (last_unit pre) (w @ post)"
    unfolding match_alternatives_iff by auto
  with m(4) have "search (map parse_alternative pattern) None (pre @ w @ post)"
    unfolding last_unit_def by (intro search_complete)
  then show "regex_test pattern text"
    by (simp add: regex_test_def m(1))
qed

lemma parse_alternative_plain: "CHR ''.'' \<notin> set kw \<Longrightarrow> parse_alternative kw = map Lit kw"
  by (induction kw rule: parse_alternative.induct) auto

lemma keyword_matches_plain:
  "keyword_matches (map Lit kw) w \<longleftrightarrow> map canonicalize w = map canonicalize kw"
  by (induction kw arbitrary: w) (auto split: list.splits)

lemma unit_before_append_Cons: "unit_before prev (xs @ c # cs) = unit_before (Some c) cs"
  by (simp add: unit_before_append)

lemma last_unit_append_Cons: "last_unit (xs @ c # cs) = unit_before (Some c) cs"
  by (simp add: last_unit_def unit_before_append_Cons)

lemma keyword_in_text:
  assumes "kw \<in> set pattern" and "keyword_matches (parse_alternative kw) w"
    and "word_boundary (last_unit pre) (first_unit (w @ post))"
    and "word_boundary (last_unit (pre @ w)) (first_unit post)"
  shows "regex_test pattern (pre @ w @ post)"
  unfolding regex_test_iff pattern_matches_def using assms by blast

subsection \<open>The categorizer on texts with the keyword docker\<close>

lemma word_boundary_simps:
  "word_boundary None None = False"
  "word_boundary None (Some c) = is_word_char c"
  "word_boundary (Some c) None = is_word_char c"
  "word_boundary (Some c) (Some d) = (is_word_char c \<noteq> is_word_char d)"
  by (auto simp: word_boundary_def)

lemma canonicalize_table:
  "canonicalize (CHR ''a'') = CHR ''A''"
  "canonicalize (CHR ''b'') = CHR ''B''"
  "canonicalize (CHR ''c'') = CHR ''C''"
  "canonicalize (CHR ''d'') = CHR ''D''"
  "canonicalize (CHR ''e'') = CHR ''E''"
  "canonicalize (CHR ''f'') = CHR ''F''"
  "canonicalize (CHR ''g'') = CHR ''G''"
  "canonicalize (CHR ''h'') = CHR ''H''"
  "canonicalize (CHR ''i'') = CHR ''I''"
  "canonicalize (CHR ''j'') = CHR ''J''"
  "canonicalize (CHR ''k'') = CHR ''K''"
  "canonicalize (CHR ''l'') = CHR ''L''"
  "canonicalize (CHR ''m'') = CHR ''M''"
  "canonicalize (CHR ''n'') = CHR ''N''"
  "canonicalize (CHR ''o'') = CHR ''O''"
  "canonicalize (CHR ''p'') = CHR ''P''"
  "canonicalize (CHR ''q'') = CHR ''Q''"
  "canonicalize (CHR ''r'') = CHR ''R''"
  "canonicalize (CHR ''s'') = CHR ''S''"
  "canonicalize (CHR ''t'') = CHR ''T''"
  "canonicalize (CHR ''u'') = CHR ''U''"
  "canonicalize (CHR ''v'') = CHR ''V''"
  "canonicalize (CHR ''w'') = CHR ''W''"
  "canonicalize (CHR ''x'') = CHR ''X''"
  "canonicalize (CHR ''y'') = CHR ''Y''"
  "canonicalize (CHR ''z'') = CHR ''Z''"
  "canonicalize (CHR ''A'') = CHR ''A''"
  "canonicalize (CHR ''B'') = CHR ''B''"
  "canonicalize (CHR ''C'') = CHR ''C''"
  "canonicalize (CHR ''D'') = CHR ''D''"
  "canonicalize (CHR ''E'') = CHR ''E''"
  "canonicalize (CHR ''F'') = CHR ''F''"
  "canonicalize (CHR ''G'') = CHR ''G''"
  "canonicalize (CHR ''H'') = CHR ''H''"
  "canonicalize (CHR ''I'') = CHR ''I''"
  "canonicalize (CHR ''J'') = CHR ''J''"
  "canonicalize (CHR ''K'') = CHR ''K''"
  "canonicalize (CHR ''L'') = CHR ''L''"
  "canonicalize (CHR ''M'') = CHR ''M''"
  "canonicalize (CHR ''N'') = CHR ''N''"
  "canonicalize (CHR ''O'') = CHR ''O''"
  "canonicalize (CHR ''P'') = CHR ''P''"
  "canonicalize (CHR ''Q'') = CHR ''Q''"
  "canonicalize (CHR ''R'') = CHR ''R''"
  "canonicalize (CHR ''S'') = CHR ''S''"
  "canonicalize (CHR ''T'') = CHR ''T''"
  "canonicalize (CHR ''U'') = CHR ''U''"
  "canonicalize (CHR ''V'') = CHR ''V''"
  "canonicalize (CHR ''W'') = CHR ''W''"
  "canonicalize (CHR ''X'') = CHR ''X''"
  "canonicalize (CHR ''Y'') = CHR ''Y''"
  "canonicalize (CHR ''Z'') = CHR ''Z''"
  "canonicalize (CHR ''0'') = CHR ''0''"
  "canonicalize (CHR ''1'') = CHR ''1''"
  "canonicalize (CHR ''2'') = CHR ''2''"
  "canonicalize (CHR ''3'') = CHR ''3''"
  "canonicalize (CHR ''4'') = CHR ''4''"
  "canonicalize (CHR ''5'') = CHR ''5''"
  "canonicalize (CHR ''6'') = CHR ''6''"
  "canonicalize (CHR ''7'') = CHR ''7''"
  "canonicalize (CHR ''8'') = CHR ''8''"
  "canonicalize (CHR ''9'') = CHR ''9''"
  "canonicalize (CHR ''_'') = CHR ''_''"
  "canonicalize (CHR '' '') = CHR '' ''"
  "canonicalize (CHR ''/'') = CHR ''/''"
  "canonicalize (CHR ''-'') = CHR ''-''"
  "canonicalize (CHR ''.'') = CHR ''.''"
  by (simp_all add: canonicalize_def)

lemma is_word_char_table:
  "is_word_char (CHR ''a'') = True"
  "is_word_char (CHR ''b'') = True"
  "is_word_char (CHR ''c'') = True"
  "is_word_char (CHR ''d'') = True"
  "is_word_char (CHR ''e'') = True"
  "is_word_char (CHR ''f'') = True"
  "is_word_char (CHR ''g'') = True"
  "is_word_char (CHR ''h'') = True"
  "is_word_char (CHR ''i'') = True"
  "is_word_char (CHR ''j'') = True"
  "is_word_char (CHR ''k'') = True"
  "is_word_char (CHR ''l'') = True"
  "is_word_char (CHR ''m'') = True"
  "is_word_char (CHR ''n'') = True"
  "is_word_char (CHR ''o'') = True"
  "is_word_char (CHR ''p'') = True"
  "is_word_char (CHR ''q'') = True"
  "is_word_char (CHR ''r'') = True"
  "is_word_char (CHR ''s'') = True"
  "is_word_char (CHR ''t'') = True"
  "is_word_char (CHR ''u'') = True"
  "is_word_char (CHR ''v'') = True"
  "is_word_char (CHR ''w'') = True"
  "is_word_char (CHR ''x'') = True"
  "is_word_char (CHR ''y'') = True"
  "is_word_char (CHR ''z'') = True"
  "is_word_char (CHR ''A'') = True"
  "is_word_char (CHR ''B'') = True"
  "is_word_char (CHR ''C'') = True"
  "is_word_char (CHR ''D'') = True"
  "is_word_char (CHR ''E'') = True"
  "is_word_char (CHR ''F'') = True"
  "is_word_char (CHR ''G'') = True"
  "is_word_char (CHR ''H'') = True"
  "is_word_char (CHR ''I'') = True"
  "is_word_char (CHR ''J'') = True"
  "is_word_char (CHR ''K'') = True"
  "is_word_char (CHR ''L'') = True"
  "is_word_char (CHR ''M'') = True"
  "is_word_char (CHR ''N'') = True"
  "is_word_char (CHR ''O'') = True"
  "is_word_char (CHR ''P'') = True"
  "is_word_char (CHR ''Q'') = True"
  "is_word_char (CHR ''R'') = True"
  "is_word_char (CHR ''S'') = True"
  "is_word_char (CHR ''T'') = True"
  "is_word_char (CHR ''U'') = True"
  "is_word_char (CHR ''V'') = True"
  "is_word_char (CHR ''W'') = True"
  "is_word_char (CHR ''X'') = True"
  "is_word_char (CHR ''Y'') = True"
  "is_word_char (CHR ''Z'') = True"
  "is_word_char (CHR ''0'') = True"
  "is_word_char (CHR ''1'') = True"
  "is_word_char (CHR ''2'') = True"
  "is_word_char (CHR ''3'') = True"
  "is_word_char (CHR ''4'') = True"
  "is_word_char (CHR ''5'') = True"
  "is_word_char (CHR ''6'') = True"
  "is_word_char (CHR ''7'') = True"
  "is_word_char (CHR ''8'') = True"
  "is_word_char (CHR ''9'') = True"
  "is_word_char (CHR ''_'') = True"
  "is_word_char (CHR '' '') = False"
  "is_word_char (CHR ''/'') = False"
  "is_word_char (CHR ''-'') = False"
  "is_word_char (CHR ''.'') = False"
  by (simp_all add: is_word_char_def)

lemmas regex_eval =
  search.simps match_alternatives.simps match_atoms.simps parse_alternative.simps
  list.case list.map if_True if_False canonicalize_table is_word_char_table word_boundary_simps
  char.inject simp_thms atom.inject atom.distinct option.case line_terminator_def

lemma docker_keyword:
  "''docker'' \<in> set developmentToolsPattern"
  "keyword_matches (parse_alternative ''docker'') ''Docker''"
  "keyword_matches (parse_alternative ''docker'') ''docker''"
  by (simp_all add: developmentToolsPattern_def canonicalize_table)

lemma first_rule_wins:
  "regex_test developmentToolsPattern (searchText skill) \<Longrightarrow>
   categorize skill = ''development-tools''"
  by (simp add: categorize_def CATEGORIES_def)

lemma docker_title:
  assumes "title skill = ''Docker CI pipeline''"
  shows "categorize skill = ''development-tools''"
proof -
  let ?pre = "(SkillIndexItem.source skill @ '' '' @ SkillIndexItem.skillId skill) @ '' ''"
  have "regex_test developmentToolsPattern (?pre @ ''Docker'' @ '' CI pipeline'')"
    by (rule keyword_in_text[OF docker_keyword(1,2)])
      (simp_all add: last_unit_append_Cons unit_before_append_Cons word_boundary_simps
        is_word_char_table)
  then show ?thesis
    by (intro first_rule_wins) (simp add: searchText_def assms)
qed

lemma docker_source:
  assumes "SkillIndexItem.source skill = ''docker/compose''"
  shows "categorize skill = ''development-tools''"
proof -
  let ?post = "''/compose'' @ '' '' @ SkillIndexItem.skillId skill @ '' '' @ title skill"
  have "regex_test developmentToolsPattern ([] @ ''docker'' @ ?post)"
    by (rule keyword_in_text[OF docker_keyword(1,3)])
      (simp_all add: last_unit_def word_boundary_simps is_word_char_table)
  then show ?thesis
    by (intro first_rule_wins) (simp add: searchText_def assms)
qed

lemma docker_skillId:
  assumes "SkillIndexItem.skillId skill = ''docker''"
  shows "categorize skill = ''development-tools''"
proof -
  let ?pre = "SkillIndexItem.source skill @ '' ''"
  have "regex_test developmentToolsPattern (?pre @ ''docker'' @ '' '' @ title skill)"
    by (rule keyword_in_text[OF docker_keyword(1,3)])
      (simp_all add: last_unit_append_Cons unit_before_append_Cons word_boundary_simps
        is_word_char_table)
  then show ?thesis
    by (intro first_rule_wins) (simp add: searchText_def assms)
qed

subsection \<open>Sample items, evaluated\<close>

lemma unrelated_no_match:
  "\<not> regex_test developmentToolsPattern ''acme/misc thing Random unrelated tool''"
  "\<not> regex_test dataAnalysisPattern ''acme/misc thing Random unrelated tool''"
  "\<not> regex_test documentProcessingPattern ''acme/misc thing Random unrelated tool''"
  "\<not> regex_test creativeMediaPattern ''acme/misc thing Random unrelated tool''"
  "\<not> regex_test communicationWritingPattern ''acme/misc thing Random unrelated tool''"
  "\<not> regex_test businessMarketingPattern ''acme/misc thing Random unrelated tool''"
  "\<not> regex_test productivityPattern ''acme/misc thing Random unrelated tool''"
  "\<not> regex_test collaborationPattern ''acme/misc thing Random unrelated tool''"
  "\<not> regex_test securityPattern ''acme/misc thing Random unrelated tool''"
  unfolding regex_test_def
  by (simp only: developmentToolsPattern_def dataAnalysisPattern_def documentProcessingPattern_def creativeMediaPattern_def communicationWritingPattern_def businessMarketingPattern_def productivityPattern_def collaborationPattern_def securityPattern_def,
      simp only: regex_eval)+

lemma latest_no_match:
  "\<not> regex_test developmentToolsPattern ''acme/misc thing The latest thing''"
  "\<not> regex_test dataAnalysisPattern ''acme/misc thing The latest thing''"
  "\<not> regex_test documentProcessingPattern ''acme/misc thing The latest thing''"
  "\<not> regex_test creativeMediaPattern ''acme/misc thing The latest thing''"
  "\<not> regex_test communicationWritingPattern ''acme/misc thing The latest thing''"
  "\<not> regex_test businessMarketingPattern ''acme/misc thing The latest thing''"
  "\<not> regex_test productivityPattern ''acme/misc thing The latest thing''"
  "\<not> regex_test collaborationPattern ''acme/misc thing The latest thing''"
  "\<not> regex_test securityPattern ''acme/misc thing The latest thing''"
  unfolding regex_test_def
  by (simp only: developmentToolsPattern_def dataAnalysisPattern_def documentProcessingPattern_def creativeMediaPattern_def communicationWritingPattern_def businessMarketingPattern_def productivityPattern_def collaborationPattern_def securityPattern_def,
      simp only: regex_eval)+

lemma pipeline_match:
  "\<not> regex_test developmentToolsPattern ''acme/misc thing A pipeline''"
  "regex_test dataAnalysisPattern ''acme/misc thing A pipeline''"
  unfolding regex_test_def
  by (simp only: developmentToolsPattern_def dataAnalysisPattern_def, simp only: regex_eval)+



lemma sample_searchText:
  "searchText dockerItem = ''acme/misc thing Docker CI pipeline''"
  "searchText pipelineItem = ''acme/misc thing A pipeline''"
  "searchText unrelatedItem = ''acme/misc thing Random unrelated tool''"
  "searchText latestItem = ''acme/misc thing The latest thing''"
  by (simp_all add: searchText_def dockerItem_def pipelineItem_def unrelatedItem_def
      latestItem_def sampleItem_def)

lemma sample_rules:
  "1 < length CATEGORIES"
  "snd (CATEGORIES ! 0) = developmentToolsPattern"
  "snd (CATEGORIES ! 1) = dataAnalysisPattern"
  "fst (CATEGORIES ! 1) = ''data-analysis''"
  by (simp_all add: CATEGORIES_def)

text \<open>
  Claim C9. The search text of an item is its source, skillId and title joined by single
  spaces, and \<open>categorize\<close> depends on these three fields only. A pattern is found in a text
  exactly when some keyword of it (ignoring case) stands in the text between two word
  boundaries. \<open>categorize\<close> returns the category of the first rule of \<open>CATEGORIES\<close> whose
  pattern matches the search text in this sense, and \<open>other\<close> when no pattern matches. An
  item with the title \<open>Docker CI pipeline\<close> gets \<open>development-tools\<close> whatever its source and
  skillId; so does an item with the source \<open>docker/compose\<close> and an item with the skillId
  \<open>docker\<close>, whatever its other fields.
\<close>

theorem categorize_first_match:
  "searchText skill =
     SkillIndexItem.source skill @ '' '' @ SkillIndexItem.skillId skill @ '' '' @ title skill \<and>
   (SkillIndexItem.source a = SkillIndexItem.source b \<and>
    SkillIndexItem.skillId a = SkillIndexItem.skillId b \<and> title a = title b \<longrightarrow>
      categorize a = categorize b) \<and>
   (regex_test pattern input \<longleftrightarrow> pattern_matches pattern input) \<and>
   (CHR ''.'' \<notin> set kw \<longrightarrow>
      (keyword_matches (parse_alternative kw) w \<longleftrightarrow> map canonicalize w = map canonicalize kw)) \<and>
   (k < length CATEGORIES \<and> pattern_matches (snd (CATEGORIES ! k)) (searchText skill) \<and>
    (\<forall>j<k. \<not> pattern_matches (snd (CATEGORIES ! j)) (searchText skill)) \<longrightarrow>
      categorize skill = fst (CATEGORIES ! k)) \<and>
   ((\<forall>rule\<in>set CATEGORIES. \<not> pattern_matches (snd rule) (searchText skill)) \<longrightarrow>
      categorize skill = ''other'') \<and>
   (title skill = ''Docker CI pipeline'' \<longrightarrow> categorize skill = ''development-tools'') \<and>
   (SkillIndexItem.source skill = ''docker/compose'' \<longrightarrow> categorize skill = ''development-tools'') \<and>
   (SkillIndexItem.skillId skill = ''docker'' \<longrightarrow> categorize skill = ''development-tools'')"
proof (intro conjI impI)
  show "searchText skill =
     SkillIndexItem.source skill @ '' '' @ SkillIndexItem.skillId skill @ '' '' @ title skill"
    by (simp add: searchText_def)
next
  assume "SkillIndexItem.source a = SkillIndexItem.source b \<and>
    SkillIndexItem.skillId a = SkillIndexItem.skillId b \<and> title a = title b"
  then show "categorize a = categorize b"
    by (simp add: categorize_def searchText_def)
next
  show "regex_test pattern input \<longleftrightarrow> pattern_matches pattern input"
    by (rule regex_test_iff)
next
  assume "CHR ''.'' \<notin> set kw"
  then show "keyword_matches (parse_alternative kw) w \<longleftrightarrow> map canonicalize w = map canonicalize kw"
    by (simp add: parse_alternative_plain keyword_matches_plain)
next
  assume "k < length CATEGORIES \<and> pattern_matches (snd (CATEGORIES ! k)) (searchText skill) \<and>
    (\<forall>j<k. \<not> pattern_matches (snd (CATEGORIES ! j)) (searchText skill))"
  then show "categorize skill = fst (CATEGORIES ! k)"
    unfolding categorize_def regex_test_iff[symmetric]
    by (intro categorizeLoop_first_match) simp_all
next
  assume "\<forall>rule\<in>set CATEGORIES. \<not> pattern_matches (snd rule) (searchText skill)"
  then show "categorize skill = ''other''"
    unfolding categorize_def regex_test_iff[symmetric] by (rule categorizeLoop_no_match)
next
  assume "title skill = ''Docker CI pipeline''"
  then show "categorize skill = ''development-tools''"
    by (rule docker_title)
next
  assume "SkillIndexItem.source skill = ''docker/compose''"
  then show "categorize skill = ''development-tools''"
    by (rule docker_source)
next
  assume "SkillIndexItem.skillId skill = ''docker''"
  then show "categorize skill = ''development-tools''"
    by (rule docker_skillId)
qed

theorem categorize_first_match_witness:
  "SkillIndexItem.source dockerItem = SkillIndexItem.source (dockerItem\<lparr>installsAllTime := 99\<rparr>) \<and>
   SkillIndexItem.skillId dockerItem = SkillIndexItem.skillId (dockerItem\<lparr>installsAllTime := 99\<rparr>) \<and>
   title dockerItem = title (dockerItem\<lparr>installsAllTime := 99\<rparr>) \<and>
   categorize dockerItem = categorize (dockerItem\<lparr>installsAllTime := 99\<rparr>) \<and>
   CHR ''.'' \<notin> set ''docker'' \<and>
   map canonicalize ''DoCkEr'' = map canonicalize ''docker'' \<and>
   keyword_matches (parse_alternative ''docker'') ''DoCkEr'' \<and>
   1 < length CATEGORIES \<and>
   pattern_matches (snd (CATEGORIES ! 1)) (searchText pipelineItem) \<and>
   \<not> pattern_matches (snd (CATEGORIES ! 0)) (searchText pipelineItem) \<and>
   categorize pipelineItem = ''data-analysis'' \<and>
   list_all (\<lambda>rule. \<not> pattern_matches (snd rule) (searchText unrelatedItem)) CATEGORIES \<and>
   categorize unrelatedItem = ''other'' \<and>
   list_all (\<lambda>rule. \<not> pattern_matches (snd rule) (searchText latestItem)) CATEGORIES \<and>
   categorize latestItem = ''other'' \<and>
   title dockerItem = ''Docker CI pipeline'' \<and>
   categorize dockerItem = ''development-tools'' \<and>
   SkillIndexItem.source (sampleItem\<lparr>source := ''docker/compose''\<rparr>) = ''docker/compose'' \<and>
   categorize (sampleItem\<lparr>source := ''docker/compose''\<rparr>) = ''development-tools'' \<and>
   SkillIndexItem.skillId (sampleItem\<lparr>skillId := ''docker''\<rparr>) = ''docker'' \<and>
   categorize (sampleItem\<lparr>skillId := ''docker''\<rparr>) = ''development-tools''"
proof -
  have same: "SkillIndexItem.source dockerItem = SkillIndexItem.source (dockerItem\<lparr>installsAllTime := 99\<rparr>)"
    "SkillIndexItem.skillId dockerItem = SkillIndexItem.skillId (dockerItem\<lparr>installsAllTime := 99\<rparr>)"
    "title dockerItem = title (dockerItem\<lparr>installsAllTime := 99\<rparr>)"
    by simp_all
  have pure: "categorize dockerItem = categorize (dockerItem\<lparr>installsAllTime := 99\<rparr>)"
    using categorize_first_match[where a = dockerItem and b = "dockerItem\<lparr>installsAllTime := 99\<rparr>", THEN conjunct2, THEN conjunct1]
      same by blast
  have plain: "CHR ''.'' \<notin> set ''docker''"
    "map canonicalize ''DoCkEr'' = map canonicalize ''docker''"
    by (simp_all add: canonicalize_table)
  have mixed: "keyword_matches (parse_alternative ''docker'') ''DoCkEr''"
    using categorize_first_match[where kw = "''docker''" and w = "''DoCkEr''", THEN conjunct2, THEN conjunct2, THEN conjunct2, THEN conjunct1]
      plain by blast
  have second: "pattern_matches (snd (CATEGORIES ! 1)) (searchText pipelineItem)"
    "\<not> pattern_matches (snd (CATEGORIES ! 0)) (searchText pipelineItem)"
    unfolding regex_test_iff[symmetric]
    by (simp_all only: sample_rules sample_searchText pipeline_match not_False_eq_True)
  then have "\<forall>j<1. \<not> pattern_matches (snd (CATEGORIES ! j)) (searchText pipelineItem)"
    by simp
  then have "categorize pipelineItem = fst (CATEGORIES ! 1)"
    using categorize_first_match[where k = 1 and skill = pipelineItem, THEN conjunct2, THEN conjunct2, THEN conjunct2, THEN conjunct2, THEN conjunct1]
      second(1) sample_rules(1) by blast
  then have data: "categorize pipelineItem = ''data-analysis''"
    by (simp only: sample_rules)
  have none: "list_all (\<lambda>rule. \<not> pattern_matches (snd rule) (searchText unrelatedItem)) CATEGORIES"
    "list_all (\<lambda>rule. \<not> pattern_matches (snd rule) (searchText latestItem)) CATEGORIES"
    unfolding regex_test_iff[symmetric]
    by (simp_all add: CATEGORIES_def sample_searchText unrelated_no_match latest_no_match)
  then have "\<forall>rule\<in>set CATEGORIES. \<not> pattern_matches (snd rule) (searchText unrelatedItem)"
    "\<forall>rule\<in>set CATEGORIES. \<not> pattern_matches (snd rule) (searchText latestItem)"
    by (simp_all add: list_all_iff)
  then have other: "categorize unrelatedItem = ''other''" "categorize latestItem = ''other''"
    using categorize_first_match[where skill = unrelatedItem, THEN conjunct2, THEN conjunct2, THEN conjunct2, THEN conjunct2, THEN conjunct2, THEN conjunct1]
      categorize_first_match[where skill = latestItem, THEN conjunct2, THEN conjunct2, THEN conjunct2, THEN conjunct2, THEN conjunct2, THEN conjunct1]
    by blast+
  have docker: "title dockerItem = ''Docker CI pipeline''"
    by (simp add: dockerItem_def)
  then have tools: "categorize dockerItem = ''development-tools''"
    using categorize_first_match[where skill = dockerItem, THEN conjunct2, THEN conjunct2, THEN conjunct2, THEN conjunct2, THEN conjunct2, THEN conjunct2, THEN conjunct1] by blast
  have fields: "SkillIndexItem.source (sampleItem\<lparr>source := ''docker/compose''\<rparr>) = ''docker/compose''"
    "SkillIndexItem.skillId (sampleItem\<lparr>skillId := ''docker''\<rparr>) = ''docker''"
    by simp_all
  then have searched: "categorize (sampleItem\<lparr>source := ''docker/compose''\<rparr>) = ''development-tools''"
    "categorize (sampleItem\<lparr>skillId := ''docker''\<rparr>) = ''development-tools''"
    using categorize_first_match[where skill = "sampleItem\<lparr>source := ''docker/compose''\<rparr>", THEN conjunct2, THEN conjunct2, THEN conjunct2, THEN conjunct2, THEN conjunct2, THEN conjunct2, THEN conjunct2, THEN conjunct1]
      categorize_first_match[where skill = "sampleItem\<lparr>skillId := ''docker''\<rparr>", THEN conjunct2, THEN conjunct2, THEN conjunct2, THEN conjunct2, THEN conjunct2, THEN conjunct2, THEN conjunct2, THEN conjunct2]
    by blast+
  show ?thesis
    by (intro conjI same pure plain mixed second sample_rules(1) data none other docker tools
        fields searched)
qed

end
